theory Spec2Isabelle
  imports Main "HOL-Library.Product_Lexorder"
begin

section \<open>Data model: the four tables of scripts/setup_db.py\<close>

text \<open>
  A Python \<open>datetime\<close> is its count of microseconds since the epoch; a \<open>uuid\<close> is its
  128-bit value, of which only equality and the order the store sorts by are used. All
  \<open>bigint\<close> identifiers are Python integers.

  A column of CQL type \<open>timestamp\<close> holds whole milliseconds since the epoch. The driver
  binds a \<open>datetime\<close> parameter as
  \<open>int(calendar.timegm(v.utctimetuple()) * 1e3 + v.microsecond / 1e3)\<close>, the
  millisecond count truncated towards zero, and gives a column value back as the
  \<open>datetime\<close> at that millisecond.
\<close>

type_synonym timestamp = int
type_synonym millis = int
type_synonym uuid = nat

definition to_millis :: "timestamp \<Rightarrow> millis" where
  "to_millis us = (if 0 \<le> us then us div 1000 else - ((- us) div 1000))"

definition from_millis :: "millis \<Rightarrow> timestamp" where
  "from_millis ms = ms * 1000"

text \<open>
  \<open>messages_by_conversation\<close>:
  \<open>PRIMARY KEY (conversation_id, created_at, message_id)\<close>,
  \<open>CLUSTERING ORDER BY (created_at DESC, message_id DESC)\<close>.
\<close>

record message_row =
  m_conversation_id :: int
  m_created_at :: millis
  m_message_id :: uuid
  m_sender_id :: int
  m_receiver_id :: int
  m_content :: string

text \<open>
  \<open>conversations_by_user\<close>:
  \<open>PRIMARY KEY (user_id, last_message_at, conversation_id)\<close>,
  \<open>CLUSTERING ORDER BY (last_message_at DESC, conversation_id DESC)\<close>.
\<close>

record summary_row =
  s_user_id :: int
  s_last_message_at :: millis
  s_conversation_id :: int
  s_other_user_id :: int
  s_last_message_content :: string

text \<open>
  \<open>conversation_metadata\<close>: \<open>PRIMARY KEY (conversation_id)\<close>. Every other column is
  nullable: the \<open>UPDATE\<close> of \<open>create_message\<close> sets two columns only and the
  \<open>INSERT\<close> of \<open>create_or_get_conversation\<close> writes \<open>NULL\<close> into \<open>last_message_at\<close>.
\<close>

record metadata_row =
  md_user1_id :: "int option"
  md_user2_id :: "int option"
  md_created_at :: "millis option"
  md_last_message_at :: "millis option"
  md_last_message_content :: "string option"

text \<open>\<open>user_conversations_lookup\<close>: \<open>PRIMARY KEY ((user1_id, user2_id))\<close>.\<close>

record store =
  messages_by_conversation :: "message_row list"
  conversations_by_user :: "summary_row list"
  conversation_metadata :: "int \<Rightarrow> metadata_row option"
  user_conversations_lookup :: "int \<times> int \<Rightarrow> int option"

definition message_key :: "message_row \<Rightarrow> int \<times> millis \<times> uuid" where
  "message_key r = (m_conversation_id r, m_created_at r, m_message_id r)"

definition summary_key :: "summary_row \<Rightarrow> int \<times> millis \<times> int" where
  "summary_key r = (s_user_id r, s_last_message_at r, s_conversation_id r)"

text \<open>
  A CQL \<open>INSERT\<close> is an upsert: the row with the same primary key is replaced, any other
  row is kept.
\<close>

definition upsert :: "('r \<Rightarrow> 'k) \<Rightarrow> 'r \<Rightarrow> 'r list \<Rightarrow> 'r list" where
  "upsert key r rows = r # filter (\<lambda>x. key x \<noteq> key r) rows"

text \<open>
  A \<open>SELECT\<close> on one partition returns its rows in clustering order, here descending in
  both clustering columns, and \<open>LIMIT n\<close> keeps the first \<open>n\<close>.
\<close>

definition clustering_desc :: "('r \<Rightarrow> 'k::linorder) \<Rightarrow> 'r list \<Rightarrow> 'r list" where
  "clustering_desc ck rows = rev (sort_key ck rows)"

section \<open>The storage gateway (db/cassandra_client.py)\<close>

datatype exn =
    NoHostAvailable string
  | OperationTimedOut string
  | InvalidRequest string
  | DriverException string
  | AttributeError string
  | ValidationError string
  | HTTPException nat string

datatype query =
    INSERT_messages_by_conversation
  | INSERT_conversations_by_user
  | UPDATE_conversation_metadata
  | SELECT_messages_by_conversation
  | SELECT_messages_before
  | SELECT_conversations_by_user
  | SELECT_conversation_metadata
  | SELECT_user_conversations_lookup
  | INSERT_user_conversations_lookup
  | INSERT_conversation_metadata

text \<open>
  The process-wide client: the tables behind the session, the outcome of each coming call
  of \<open>execute\<close> (\<open>Some e\<close>: the driver raises \<open>e\<close>; \<open>None\<close>, or nothing planned: the
  statement runs), the statements submitted so far, and what \<open>execute\<close> has written to
  the error log.
\<close>

record db =
  tables :: store
  faults :: "exn option list"
  executed :: "query list"
  error_log :: "exn list"

type_synonym 'a io = "db \<Rightarrow> (exn + 'a) \<times> db"

definition ret :: "'a \<Rightarrow> 'a io" where
  "ret v s = (Inr v, s)"

definition raise :: "exn \<Rightarrow> 'a io" where
  "raise e s = (Inl e, s)"

text \<open>Sequencing: an exception of the first part skips the rest; what was written stays.\<close>

definition seq :: "'a io \<Rightarrow> ('a \<Rightarrow> 'b io) \<Rightarrow> 'b io" where
  "seq m f s = (case m s of (Inl e, s') \<Rightarrow> (Inl e, s') | (Inr v, s') \<Rightarrow> f v s')"

text \<open>\<open>try: m except Exception as e: h e\<close>.\<close>

definition try_except :: "'a io \<Rightarrow> (exn \<Rightarrow> 'a io) \<Rightarrow> 'a io" where
  "try_except m h s = (case m s of (Inl e, s') \<Rightarrow> h e s' | (Inr v, s') \<Rightarrow> (Inr v, s'))"

text \<open>
  \<open>CassandraClient.execute\<close>: runs the statement on the session; whatever the driver
  raises is logged (\<open>logger.error\<close>) and raised again.
\<close>

definition execute :: "query \<Rightarrow> (store \<Rightarrow> exn + 'a \<times> store) \<Rightarrow> 'a io" where
  "execute q run s =
     (let s1 = s\<lparr>faults := tl (faults s), executed := executed s @ [q]\<rparr>
      in case faults s of
           Some e # _ \<Rightarrow> (Inl e, s1\<lparr>error_log := error_log s @ [e]\<rparr>)
         | _ \<Rightarrow> (case run (tables s) of
                   Inl e \<Rightarrow> (Inl e, s1\<lparr>error_log := error_log s @ [e]\<rparr>)
                 | Inr (v, t) \<Rightarrow> (Inr v, s1\<lparr>tables := t\<rparr>)))"

subsection \<open>The statements\<close>

definition limit_rows :: "int \<Rightarrow> 'r list \<Rightarrow> exn + 'r list" where
  "limit_rows n rows =
     (if n \<le> 0 then Inl (InvalidRequest ''LIMIT must be strictly positive'')
      else Inr (take (nat n) rows))"

definition rd :: "exn + 'a \<Rightarrow> store \<Rightarrow> exn + 'a \<times> store" where
  "rd r t = (case r of Inl e \<Rightarrow> Inl e | Inr v \<Rightarrow> Inr (v, t))"

text \<open>
  The statements take their parameters in the order of the source's tuples; a
  \<open>datetime\<close> parameter reaches its column through \<open>to_millis\<close>.
\<close>

definition insert_message ::
    "int \<Rightarrow> timestamp \<Rightarrow> uuid \<Rightarrow> int \<Rightarrow> int \<Rightarrow> string \<Rightarrow> store \<Rightarrow> exn + unit \<times> store" where
  "insert_message conversation_id created_at message_id sender_id receiver_id content t =
     Inr ((), t\<lparr>messages_by_conversation :=
                  upsert message_key
                    \<lparr>m_conversation_id = conversation_id,
                     m_created_at = to_millis created_at,
                     m_message_id = message_id, m_sender_id = sender_id,
                     m_receiver_id = receiver_id, m_content = content\<rparr>
                    (messages_by_conversation t)\<rparr>)"

definition insert_summary ::
    "int \<Rightarrow> timestamp \<Rightarrow> int \<Rightarrow> int \<Rightarrow> string \<Rightarrow> store \<Rightarrow> exn + unit \<times> store" where
  "insert_summary user_id last_message_at conversation_id other_user_id content t =
     Inr ((), t\<lparr>conversations_by_user :=
                  upsert summary_key
                    \<lparr>s_user_id = user_id,
                     s_last_message_at = to_millis last_message_at,
                     s_conversation_id = conversation_id,
                     s_other_user_id = other_user_id,
                     s_last_message_content = content\<rparr>
                    (conversations_by_user t)\<rparr>)"

definition update_metadata :: "timestamp \<Rightarrow> string \<Rightarrow> int \<Rightarrow> store \<Rightarrow> exn + unit \<times> store" where
  "update_metadata ts content cid t =
     (let old = (case conversation_metadata t cid of
                   None \<Rightarrow> \<lparr>md_user1_id = None, md_user2_id = None, md_created_at = None,
                            md_last_message_at = None, md_last_message_content = None\<rparr>
                 | Some r \<Rightarrow> r)
      in Inr ((), t\<lparr>conversation_metadata := (conversation_metadata t)
                (cid \<mapsto> old\<lparr>md_last_message_at := Some (to_millis ts),
                              md_last_message_content := Some content\<rparr>)\<rparr>))"

definition insert_metadata :: "int \<Rightarrow> int \<Rightarrow> int \<Rightarrow> timestamp \<Rightarrow> store \<Rightarrow> exn + unit \<times> store" where
  "insert_metadata cid u1 u2 ts t =
     (let old = (case conversation_metadata t cid of
                   None \<Rightarrow> \<lparr>md_user1_id = None, md_user2_id = None, md_created_at = None,
                            md_last_message_at = None, md_last_message_content = None\<rparr>
                 | Some r \<Rightarrow> r)
      in Inr ((), t\<lparr>conversation_metadata := (conversation_metadata t)
                (cid \<mapsto> old\<lparr>md_user1_id := Some u1, md_user2_id := Some u2,
                              md_created_at := Some (to_millis ts),
                              md_last_message_at := None\<rparr>)\<rparr>))"

definition insert_lookup :: "int \<Rightarrow> int \<Rightarrow> int \<Rightarrow> store \<Rightarrow> exn + unit \<times> store" where
  "insert_lookup u1 u2 cid t =
     Inr ((), t\<lparr>user_conversations_lookup := (user_conversations_lookup t)((u1, u2) \<mapsto> cid)\<rparr>)"

definition select_lookup :: "int \<Rightarrow> int \<Rightarrow> store \<Rightarrow> exn + int list \<times> store" where
  "select_lookup u1 u2 t =
     Inr ((case user_conversations_lookup t (u1, u2) of None \<Rightarrow> [] | Some c \<Rightarrow> [c]), t)"

definition select_metadata :: "int \<Rightarrow> store \<Rightarrow> exn + (int \<times> metadata_row) list \<times> store" where
  "select_metadata cid t =
     Inr ((case conversation_metadata t cid of None \<Rightarrow> [] | Some r \<Rightarrow> [(cid, r)]), t)"

definition select_messages :: "int \<Rightarrow> int \<Rightarrow> store \<Rightarrow> exn + message_row list \<times> store" where
  "select_messages cid n t =
     rd (limit_rows n
          (clustering_desc (\<lambda>r. (m_created_at r, m_message_id r))
             (filter (\<lambda>r. m_conversation_id r = cid) (messages_by_conversation t)))) t"

definition select_messages_before ::
    "int \<Rightarrow> timestamp \<Rightarrow> int \<Rightarrow> store \<Rightarrow> exn + message_row list \<times> store" where
  "select_messages_before cid before n t =
     rd (limit_rows n
          (clustering_desc (\<lambda>r. (m_created_at r, m_message_id r))
             (filter (\<lambda>r. m_conversation_id r = cid \<and> m_created_at r < to_millis before)
                (messages_by_conversation t)))) t"

definition select_summaries :: "int \<Rightarrow> int \<Rightarrow> store \<Rightarrow> exn + summary_row list \<times> store" where
  "select_summaries uid n t =
     rd (limit_rows n
          (clustering_desc (\<lambda>r. (s_last_message_at r, s_conversation_id r))
             (filter (\<lambda>r. s_user_id r = uid) (conversations_by_user t)))) t"

section \<open>models/cassandra_models.py\<close>

text \<open>
  Identifiers reach these functions as integers (the schemas and the signatures type them),
  so the conversions \<open>int(sender_id)\<close>, \<open>int(conversation_id)\<close>, ... are identities
  and are left out. A \<open>conversation_id\<close> that may be absent is an \<open>int option\<close>.
\<close>

text \<open>
  The two clock reads of \<open>create_or_get_conversation\<close>: \<open>datetime.utcnow()\<close> and
  \<open>int(time.time() * 1000)\<close>.
\<close>

record clock =
  utcnow :: timestamp
  time_ms :: int

definition create_or_get_conversation :: "clock \<Rightarrow> int \<Rightarrow> int \<Rightarrow> int io" where
  "create_or_get_conversation clk user1_id user2_id =
     (let (u1, u2) = (if user1_id > user2_id then (user2_id, user1_id)
                      else (user1_id, user2_id))
      in seq (execute SELECT_user_conversations_lookup (select_lookup u1 u2))
           (\<lambda>rows. case rows of
                c # _ \<Rightarrow> ret c
              | [] \<Rightarrow>
                  (let timestamp = utcnow clk;
                       conversation_id = time_ms clk + u1 * 1000 + u2 mod 1000
                   in seq (execute INSERT_user_conversations_lookup
                             (insert_lookup u1 u2 conversation_id))
                        (\<lambda>_. seq (execute INSERT_conversation_metadata
                                    (insert_metadata conversation_id u1 u2 timestamp))
                               (\<lambda>_. ret conversation_id)))))"

text \<open>
  The results cross the boundary as text: \<open>str(message_id)\<close> and
  \<open>created_at.isoformat()\<close>. Both renderings are injective, and the text is kept as the
  value it renders.
\<close>

datatype uuid_str = Str (uuid_of: uuid)
datatype iso8601 = Isoformat (datetime_of: timestamp)

record message_dict =
  d_message_id :: uuid_str
  d_conversation_id :: int
  d_sender_id :: int
  d_receiver_id :: int
  d_content :: string
  d_timestamp :: iso8601

text \<open>
  \<open>timestamp\<close> and \<open>message_id\<close> are what \<open>datetime.utcnow()\<close> and \<open>uuid.uuid4()\<close>
  return in this call; \<open>clk\<close> holds the clock reads of the resolver, made only when no
  conversation id was passed.
\<close>

definition create_message ::
    "timestamp \<Rightarrow> uuid \<Rightarrow> clock \<Rightarrow> int \<Rightarrow> int \<Rightarrow> string \<Rightarrow> int option \<Rightarrow> message_dict io" where
  "create_message timestamp message_id clk sender_id receiver_id content conversation_id =
     seq (case conversation_id of
            None \<Rightarrow> create_or_get_conversation clk sender_id receiver_id
          | Some c \<Rightarrow> ret c)
       (\<lambda>conversation_id.
          seq (execute INSERT_messages_by_conversation
                 (insert_message conversation_id timestamp message_id sender_id
                    receiver_id content))
            (\<lambda>_. seq (execute INSERT_conversations_by_user
                        (insert_summary sender_id timestamp conversation_id
                           receiver_id content))
               (\<lambda>_. seq (execute INSERT_conversations_by_user
                           (insert_summary receiver_id timestamp conversation_id
                              sender_id content))
                  (\<lambda>_. seq (execute UPDATE_conversation_metadata
                              (update_metadata timestamp content conversation_id))
                     (\<lambda>_. ret \<lparr>d_message_id = Str message_id,
                                d_conversation_id = conversation_id,
                                d_sender_id = sender_id,
                                d_receiver_id = receiver_id,
                                d_content = content,
                                d_timestamp = Isoformat timestamp\<rparr>)))))"

definition message_to_dict :: "message_row \<Rightarrow> message_dict" where
  "message_to_dict row =
     \<lparr>d_message_id = Str (m_message_id row),
      d_conversation_id = m_conversation_id row,
      d_sender_id = m_sender_id row,
      d_receiver_id = m_receiver_id row,
      d_content = m_content row,
      d_timestamp = Isoformat (from_millis (m_created_at row))\<rparr>"

definition get_conversation_messages :: "int \<Rightarrow> int \<Rightarrow> int \<Rightarrow> message_dict list io" where
  "get_conversation_messages conversation_id limit offset =
     seq (execute SELECT_messages_by_conversation
            (select_messages conversation_id (limit + offset)))
       (\<lambda>rows. let messages = (if offset > 0 then drop (nat offset) rows else rows)
               in ret (map message_to_dict messages))"

definition get_messages_before_timestamp ::
    "int \<Rightarrow> timestamp \<Rightarrow> int \<Rightarrow> message_dict list io" where
  "get_messages_before_timestamp conversation_id before_timestamp limit =
     seq (execute SELECT_messages_before
            (select_messages_before conversation_id before_timestamp limit))
       (\<lambda>rows. ret (map message_to_dict rows))"

record conversation_item_dict =
  ci_conversation_id :: int
  ci_other_user_id :: int
  ci_last_updated :: iso8601
  ci_last_message :: string

definition summary_to_dict :: "summary_row \<Rightarrow> conversation_item_dict" where
  "summary_to_dict row =
     \<lparr>ci_conversation_id = s_conversation_id row,
      ci_other_user_id = s_other_user_id row,
      ci_last_updated = Isoformat (from_millis (s_last_message_at row)),
      ci_last_message = s_last_message_content row\<rparr>"

definition get_user_conversations ::
    "int \<Rightarrow> int \<Rightarrow> (conversation_item_dict list \<times> bool) io" where
  "get_user_conversations user_id limit =
     seq (execute SELECT_conversations_by_user (select_summaries user_id limit))
       (\<lambda>rows. let conversations = map summary_to_dict rows;
                   has_more = (int (length conversations) = limit)
               in ret (conversations, has_more))"

record conversation_dict =
  c_conversation_id :: int
  c_participant_ids :: "int option list"
  c_created_at :: iso8601
  c_last_updated :: iso8601

text \<open>
  \<open>row["created_at"].isoformat()\<close> on a null column is a call on \<open>None\<close>; a
  \<open>datetime\<close> is always true in \<open>if row["last_message_at"]\<close>.
\<close>

definition get_conversation :: "int \<Rightarrow> conversation_dict option io" where
  "get_conversation conversation_id =
     seq (execute SELECT_conversation_metadata (select_metadata conversation_id))
       (\<lambda>rows. case rows of
            [] \<Rightarrow> ret None
          | (cid, row) # _ \<Rightarrow>
              (case md_created_at row of
                 None \<Rightarrow> raise (AttributeError
                   ''NoneType object has no attribute isoformat'')
               | Some created \<Rightarrow>
                   ret (Some \<lparr>c_conversation_id = cid,
                              c_participant_ids = [md_user1_id row, md_user2_id row],
                              c_created_at = Isoformat (from_millis created),
                              c_last_updated =
                                (case md_last_message_at row of
                                   Some t \<Rightarrow> Isoformat (from_millis t)
                                 | None \<Rightarrow> Isoformat (from_millis created))\<rparr>)))"

section \<open>The controllers\<close>

text \<open>
  \<open>str_of\<close> is Python's \<open>str(e)\<close> on the exception caught, which the detail of the
  HTTP error embeds. \<open>HTTP_500\<close> is \<open>status.HTTP_500_INTERNAL_SERVER_ERROR\<close>.
\<close>

definition HTTP_500 :: nat where "HTTP_500 = 500"
definition HTTP_404 :: nat where "HTTP_404 = 404"

record MessageResponse =
  message_id :: uuid_str
  sender_id :: int
  receiver_id :: int
  conversation_id :: int
  content :: string
  timestamp :: iso8601

definition to_MessageResponse :: "message_dict \<Rightarrow> MessageResponse" where
  "to_MessageResponse msg =
     \<lparr>message_id = d_message_id msg, sender_id = d_sender_id msg,
      receiver_id = d_receiver_id msg, conversation_id = d_conversation_id msg,
      content = d_content msg, timestamp = d_timestamp msg\<rparr>"

record PaginatedMessageResponse =
  messages :: "MessageResponse list"
  has_more :: bool

definition send_message ::
    "(exn \<Rightarrow> string) \<Rightarrow> timestamp \<Rightarrow> uuid \<Rightarrow> clock \<Rightarrow> int \<Rightarrow> int \<Rightarrow> string
       \<Rightarrow> MessageResponse io" where
  "send_message str_of now mid clk sender receiver text =
     try_except
       (seq (create_message now mid clk sender receiver text None)
          (\<lambda>message. ret (to_MessageResponse message)))
       (\<lambda>e. raise (HTTPException HTTP_500 (''Failed to send message: '' @ str_of e)))"

definition ctrl_get_conversation_messages ::
    "(exn \<Rightarrow> string) \<Rightarrow> int \<Rightarrow> int \<Rightarrow> int \<Rightarrow> PaginatedMessageResponse io" where
  "ctrl_get_conversation_messages str_of cid page limit =
     try_except
       (let offset = (page - 1) * limit
        in seq (get_conversation_messages cid limit offset)
             (\<lambda>msgs. let more = (int (length msgs) = limit)
                     in ret \<lparr>messages = map to_MessageResponse msgs, has_more = more\<rparr>))
       (\<lambda>e. raise (HTTPException HTTP_500 (''Failed to get messages: '' @ str_of e)))"

definition ctrl_get_messages_before_timestamp ::
    "(exn \<Rightarrow> string) \<Rightarrow> int \<Rightarrow> timestamp \<Rightarrow> int \<Rightarrow> int \<Rightarrow> PaginatedMessageResponse io" where
  "ctrl_get_messages_before_timestamp str_of cid before_timestamp page limit =
     try_except
       (seq (get_messages_before_timestamp cid before_timestamp limit)
          (\<lambda>msgs. let more = (int (length msgs) = limit)
                  in ret \<lparr>messages = map to_MessageResponse msgs, has_more = more\<rparr>))
       (\<lambda>e. raise (HTTPException HTTP_500 (''Failed to get messages: '' @ str_of e)))"

record ConversationListItem =
  li_conversation_id :: int
  li_other_user_id :: int
  li_last_updated :: iso8601
  li_last_message :: string

definition to_ConversationListItem :: "conversation_item_dict \<Rightarrow> ConversationListItem" where
  "to_ConversationListItem conv =
     \<lparr>li_conversation_id = ci_conversation_id conv,
      li_other_user_id = ci_other_user_id conv,
      li_last_updated = ci_last_updated conv,
      li_last_message = ci_last_message conv\<rparr>"

record PaginatedConversationResponse =
  conversations :: "ConversationListItem list"
  pc_has_more :: bool

definition ctrl_get_user_conversations ::
    "(exn \<Rightarrow> string) \<Rightarrow> int \<Rightarrow> int \<Rightarrow> int \<Rightarrow> PaginatedConversationResponse io" where
  "ctrl_get_user_conversations str_of user_id page limit =
     try_except
       (seq (get_user_conversations user_id limit)
          (\<lambda>(convs, more).
              ret \<lparr>conversations = map to_ConversationListItem convs, pc_has_more = more\<rparr>))
       (\<lambda>e. raise (HTTPException HTTP_500 (''Failed to get conversations: '' @ str_of e)))"

record ConversationResponse =
  cr_conversation_id :: int
  cr_participant_ids :: "int list"
  cr_created_at :: iso8601
  cr_last_updated :: iso8601

text \<open>
  \<open>ConversationResponse(...)\<close> validates its fields: \<open>participant_ids: List[int]\<close>
  refuses a \<open>None\<close> element.
\<close>

definition to_ConversationResponse :: "conversation_dict \<Rightarrow> ConversationResponse io" where
  "to_ConversationResponse conversation =
     (if None \<in> set (c_participant_ids conversation)
      then raise (ValidationError ''participant_ids'')
      else ret \<lparr>cr_conversation_id = c_conversation_id conversation,
                cr_participant_ids = map the (c_participant_ids conversation),
                cr_created_at = c_created_at conversation,
                cr_last_updated = c_last_updated conversation\<rparr>)"

text \<open>\<open>get_conversation\<close> re-raises an \<open>HTTPException\<close> before the general handler.\<close>

definition ctrl_get_conversation :: "(exn \<Rightarrow> string) \<Rightarrow> int \<Rightarrow> ConversationResponse io" where
  "ctrl_get_conversation str_of cid =
     try_except
       (seq (get_conversation cid)
          (\<lambda>conversation. case conversation of
               None \<Rightarrow> raise (HTTPException HTTP_404 ''Conversation not found'')
             | Some c \<Rightarrow> to_ConversationResponse c))
       (\<lambda>e. case e of
               HTTPException code detail \<Rightarrow> raise e
             | _ \<Rightarrow> raise (HTTPException HTTP_500
                             (''Failed to get conversation: '' @ str_of e)))"

text \<open>\<open>create_or_get_conversation\<close> has the general handler only.\<close>

definition ctrl_create_or_get_conversation ::
    "(exn \<Rightarrow> string) \<Rightarrow> clock \<Rightarrow> int \<Rightarrow> int \<Rightarrow> ConversationResponse io" where
  "ctrl_create_or_get_conversation str_of clk user1_id user2_id =
     try_except
       (seq (create_or_get_conversation clk user1_id user2_id)
          (\<lambda>cid. seq (get_conversation cid)
             (\<lambda>conversation. case conversation of
                  None \<Rightarrow> raise (HTTPException HTTP_404
                                  ''Failed to retrieve conversation after creation'')
                | Some c \<Rightarrow> to_ConversationResponse c)))
       (\<lambda>e. raise (HTTPException HTTP_500
                     (''Failed to create conversation: '' @ str_of e)))"

text \<open>The keyspace right after \<open>create_tables\<close>, with a healthy connection.\<close>

definition empty_store :: store where
  "empty_store = \<lparr>messages_by_conversation = [], conversations_by_user = [],
                  conversation_metadata = (\<lambda>_. None),
                  user_conversations_lookup = (\<lambda>_. None)\<rparr>"

definition fresh_db :: db where
  "fresh_db = \<lparr>tables = empty_store, faults = [], executed = [], error_log = []\<rparr>"

section \<open>Vocabulary of the properties\<close>

text \<open>The next call of \<open>execute\<close> is not planned to fail.\<close>

definition next_ok :: "db \<Rightarrow> bool" where
  "next_ok s = (case faults s of Some e # _ \<Rightarrow> False | _ \<Rightarrow> True)"



definition summaries_of :: "int \<Rightarrow> int \<Rightarrow> db \<Rightarrow> summary_row list" where
  "summaries_of uid cid s =
     filter (\<lambda>r. s_user_id r = uid \<and> s_conversation_id r = cid)
       (conversations_by_user (tables s))"

definition conversation_summaries :: "int \<Rightarrow> db \<Rightarrow> summary_row list" where
  "conversation_summaries cid s =
     filter (\<lambda>r. s_conversation_id r = cid) (conversations_by_user (tables s))"

text \<open>The clustering key a returned message was stored under.\<close>

definition response_key :: "MessageResponse \<Rightarrow> timestamp \<times> uuid" where
  "response_key m = (datetime_of (timestamp m), uuid_of (message_id m))"

text \<open>
  What \<open>execute\<close> has logged between two states: the exceptions the storage layer raised
  in between, in order.
\<close>

definition raised_during :: "db \<Rightarrow> db \<Rightarrow> exn list" where
  "raised_during s s' = drop (length (error_log s)) (error_log s')"

text \<open>
  An operation lets every exception of the storage layer through: what \<open>execute\<close> logs
  while it runs is what it ends with.
\<close>

definition surfaces :: "'a io \<Rightarrow> bool" where
  "surfaces m =
     (\<forall>s r s'. m s = (r, s') \<longrightarrow>
        (\<exists>es. error_log s' = error_log s @ es \<and> (\<forall>e \<in> set es. r = Inl e)))"

text \<open>
  Clock reads, in microseconds: 1.000456 s and 2.000789 s after the epoch, which the store
  keeps as the milliseconds 1000 and 2000.
\<close>

definition clk0 :: clock where
  "clk0 = \<lparr>utcnow = 1000456, time_ms = 1700000000000\<rparr>"

definition clk1 :: clock where
  "clk1 = \<lparr>utcnow = 2000789, time_ms = 1700000000001\<rparr>"

text \<open>
  Scenarios: users 5 and 9 exchange two messages at different times; a keyspace where the
  fifth statement to come times out; one where the third does, and a creation run there,
  whose metadata \<open>INSERT\<close> times out after the lookup row was written.
\<close>

definition sent_once :: db where
  "sent_once = snd (create_message 1000456 7 clk0 5 9 ''hello'' None fresh_db)"

definition sent_twice :: db where
  "sent_twice = snd (create_message 2000789 8 clk1 9 5 ''again'' None sent_once)"

definition flaky_db :: db where
  "flaky_db =
     fresh_db\<lparr>faults := [None, None, None, None, Some (OperationTimedOut ''timed out'')]\<rparr>"

definition lossy_db :: db where
  "lossy_db = fresh_db\<lparr>faults := [None, None, Some (OperationTimedOut ''timed out'')]\<rparr>"

definition half_created :: db where
  "half_created = snd (create_or_get_conversation clk0 5 9 lossy_db)"

definition just_created :: db where
  "just_created = snd (create_or_get_conversation clk0 5 9 fresh_db)"

text \<open>The first statement submitted finds no host.\<close>

definition down_db :: db where
  "down_db = fresh_db\<lparr>faults := [Some (NoHostAvailable ''no host'')]\<rparr>"

text \<open>
  What the two writers of \<open>conversation_metadata\<close> maintain: a row without
  \<open>last_message_at\<close> was written by the \<open>INSERT\<close> of the resolver and has its
  creation time and both participants.
\<close>

definition metadata_wf :: "store \<Rightarrow> bool" where
  "metadata_wf t =
     (\<forall>cid row. conversation_metadata t cid = Some row \<longrightarrow> md_last_message_at row = None \<longrightarrow>
        md_created_at row \<noteq> None \<and> md_user1_id row \<noteq> None \<and> md_user2_id row \<noteq> None)"

text \<open>An operation keeps a property of the tables, however it ends.\<close>

definition keeps :: "(store \<Rightarrow> bool) \<Rightarrow> 'a io \<Rightarrow> bool" where
  "keeps P m = (\<forall>s r s'. P (tables s) \<longrightarrow> m s = (r, s') \<longrightarrow> P (tables s'))"

section \<open>Lemmas on the gateway\<close>

lemma seq_Inr_iff:
  "seq m f s = (Inr v, s') \<longleftrightarrow> (\<exists>x s1. m s = (Inr x, s1) \<and> f x s1 = (Inr v, s'))"
  by (auto simp: seq_def split: prod.splits sum.splits)

lemma execute_Inr_iff:
  "execute q run s = (Inr v, s') \<longleftrightarrow>
     (\<exists>t. next_ok s \<and> run (tables s) = Inr (v, t) \<and>
          s' = s\<lparr>faults := tl (faults s), executed := executed s @ [q], tables := t\<rparr>)"
  by (auto simp: execute_def next_ok_def Let_def split: list.splits option.splits sum.splits)

lemma execute_ok:
  "next_ok s \<Longrightarrow> execute q run s =
     (case run (tables s) of
        Inl e \<Rightarrow> (Inl e, s\<lparr>faults := tl (faults s), executed := executed s @ [q],
                          error_log := error_log s @ [e]\<rparr>)
      | Inr (v, t) \<Rightarrow>
          (Inr v, s\<lparr>faults := tl (faults s), executed := executed s @ [q], tables := t\<rparr>))"
  by (auto simp: next_ok_def execute_def Let_def split: list.splits option.splits sum.splits)

lemma pair_collapse: "fst p = a \<Longrightarrow> p = (a, snd p)"
  by (cases p) simp

section \<open>Conversation identity\<close>



lemma resolve_finds_lookup:
  assumes "user_conversations_lookup (tables s) (min a b, max a b) = Some cid" and "next_ok s"
  shows "create_or_get_conversation clk a b s =
           (Inr cid, s\<lparr>faults := tl (faults s),
                       executed := executed s @ [SELECT_user_conversations_lookup]\<rparr>)"
  using assms
  by (auto simp: create_or_get_conversation_def seq_def ret_def execute_ok Let_def
        select_lookup_def min_def max_def
      split: if_splits list.splits option.splits sum.splits prod.splits)






text \<open>
  C3. A newly derived conversation id must be unique across conversations. The id is
  \<open>int(time.time() * 1000) + user1_id * 1000 + user2_id % 1000\<close>: two creations in the
  same millisecond for the distinct pairs \<open>(1, 1000)\<close> and \<open>(1, 2000)\<close>, the second on
  the store the first left, both return \<open>1700000001000\<close>.
\<close>

theorem conversation_id_collision:
  "fst (create_or_get_conversation clk0 1 1000 fresh_db) = Inr 1700000001000 \<and>
   fst (create_or_get_conversation clk0 1 2000
          (snd (create_or_get_conversation clk0 1 1000 fresh_db))) = Inr 1700000001000"
  by (simp add: create_or_get_conversation_def seq_def ret_def execute_def Let_def
        select_lookup_def insert_lookup_def insert_metadata_def fresh_db_def empty_store_def
        clk0_def)

section \<open>Message write fan-out\<close>

lemma div_millis_le: "(x::int) div 1000 * 1000 \<le> x"
  using div_mult_mod_eq [of x 1000] pos_mod_sign [of 1000 x] by linarith

lemma div_millis_gt: "(x::int) < x div 1000 * 1000 + 1000"
  using div_mult_mod_eq [of x 1000] pos_mod_bound [of 1000 x] by linarith



lemma millis_lt: "ms < to_millis t \<Longrightarrow> from_millis ms < t"
proof (cases "0 \<le> t")
  case True
  assume "ms < to_millis t"
  with True have "ms + 1 \<le> t div 1000" by (simp add: to_millis_def)
  then have "ms * 1000 + 1000 \<le> t div 1000 * 1000" by simp
  with div_millis_le [of t] show ?thesis
    unfolding from_millis_def by linarith
next
  case False
  assume "ms < to_millis t"
  with False have "ms + 1 \<le> - ((- t) div 1000)" by (simp add: to_millis_def)
  then have "ms * 1000 + 1000 \<le> - ((- t) div 1000 * 1000)" by simp
  with div_millis_gt [of "- t"] show ?thesis
    unfolding from_millis_def by linarith
qed






lemmas run_defs =
  create_message_def create_or_get_conversation_def seq_def ret_def raise_def try_except_def
  execute_def Let_def select_lookup_def insert_lookup_def insert_metadata_def
  insert_message_def insert_summary_def update_metadata_def upsert_def
  message_key_def summary_key_def fresh_db_def empty_store_def clk0_def clk1_def
  to_millis_def from_millis_def

lemma hello_sent:
  "fst (create_message 1000456 7 clk0 5 9 ''hello'' None fresh_db) =
     Inr \<lparr>d_message_id = Str 7, d_conversation_id = 1700000005009, d_sender_id = 5,
          d_receiver_id = 9, d_content = ''hello'', d_timestamp = Isoformat 1000456\<rparr>"
  by (simp add: run_defs)








section \<open>Summary rows\<close>

lemma sent_once_summaries:
  "conversations_by_user (tables sent_once) =
     [\<lparr>s_user_id = 9, s_last_message_at = 1000, s_conversation_id = 1700000005009,
       s_other_user_id = 5, s_last_message_content = ''hello''\<rparr>,
      \<lparr>s_user_id = 5, s_last_message_at = 1000, s_conversation_id = 1700000005009,
       s_other_user_id = 9, s_last_message_content = ''hello''\<rparr>]"
  by (simp add: sent_once_def run_defs)

lemma second_send:
  "fst (create_message 2000789 8 clk1 9 5 ''again'' None sent_once) =
     Inr \<lparr>d_message_id = Str 8, d_conversation_id = 1700000005009, d_sender_id = 9,
          d_receiver_id = 5, d_content = ''again'', d_timestamp = Isoformat 2000789\<rparr>"
  by (simp add: sent_once_def run_defs)

lemma sent_twice_summaries:
  "conversations_by_user (tables sent_twice) =
     [\<lparr>s_user_id = 5, s_last_message_at = 2000, s_conversation_id = 1700000005009,
       s_other_user_id = 9, s_last_message_content = ''again''\<rparr>,
      \<lparr>s_user_id = 9, s_last_message_at = 2000, s_conversation_id = 1700000005009,
       s_other_user_id = 5, s_last_message_content = ''again''\<rparr>,
      \<lparr>s_user_id = 9, s_last_message_at = 1000, s_conversation_id = 1700000005009,
       s_other_user_id = 5, s_last_message_content = ''hello''\<rparr>,
      \<lparr>s_user_id = 5, s_last_message_at = 1000, s_conversation_id = 1700000005009,
       s_other_user_id = 9, s_last_message_content = ''hello''\<rparr>]"
  by (simp add: sent_twice_def sent_once_def run_defs)

lemma sent_twice_messages:
  "messages_by_conversation (tables sent_twice) =
     [\<lparr>m_conversation_id = 1700000005009, m_created_at = 2000, m_message_id = 8,
       m_sender_id = 9, m_receiver_id = 5, m_content = ''again''\<rparr>,
      \<lparr>m_conversation_id = 1700000005009, m_created_at = 1000, m_message_id = 7,
       m_sender_id = 5, m_receiver_id = 9, m_content = ''hello''\<rparr>]"
  by (simp add: sent_twice_def sent_once_def run_defs)

lemma sent_twice_faults: "faults sent_twice = []"
  by (simp add: sent_twice_def sent_once_def run_defs)

lemmas read_defs =
  ctrl_get_conversation_messages_def ctrl_get_messages_before_timestamp_def
  ctrl_get_user_conversations_def get_conversation_messages_def
  get_messages_before_timestamp_def get_user_conversations_def
  select_messages_def select_messages_before_def select_summaries_def
  seq_def ret_def raise_def try_except_def execute_def Let_def rd_def limit_rows_def
  clustering_desc_def message_to_dict_def to_MessageResponse_def summary_to_dict_def
  to_ConversationListItem_def to_millis_def from_millis_def
  sent_twice_messages sent_twice_summaries sent_twice_faults

lemma five_listed_twice:
  "fst (get_user_conversations 5 20 sent_twice) =
     Inr ([\<lparr>ci_conversation_id = 1700000005009, ci_other_user_id = 9,
             ci_last_updated = Isoformat 2000000, ci_last_message = ''again''\<rparr>,
           \<lparr>ci_conversation_id = 1700000005009, ci_other_user_id = 9,
             ci_last_updated = Isoformat 1000000, ci_last_message = ''hello''\<rparr>],
          False)"
  by (simp add: read_defs)

text \<open>
  C4. The code does not keep two summary rows per conversation. \<open>last_message_at\<close> is
  a clustering column of \<open>conversations_by_user\<close>, so the \<open>INSERT\<close> of a later send
  writes under a new key and overwrites nothing. After users 5 and 9 have exchanged two
  messages at different milliseconds on the empty keyspace, both sends having succeeded, the
  conversation has four summary rows, two per participant, and \<open>listUserConversations(5)\<close>
  lists the conversation twice, with the last message and with the one before.
\<close>

theorem summaries_not_overwritten:
  "fst (create_message 1000456 7 clk0 5 9 ''hello'' None fresh_db) =
     Inr \<lparr>d_message_id = Str 7, d_conversation_id = 1700000005009, d_sender_id = 5,
          d_receiver_id = 9, d_content = ''hello'', d_timestamp = Isoformat 1000456\<rparr>
   \<and> fst (create_message 2000789 8 clk1 9 5 ''again'' None sent_once) =
     Inr \<lparr>d_message_id = Str 8, d_conversation_id = 1700000005009, d_sender_id = 9,
          d_receiver_id = 5, d_content = ''again'', d_timestamp = Isoformat 2000789\<rparr>
   \<and> length (conversation_summaries 1700000005009 sent_twice) = 4
   \<and> length (summaries_of 5 1700000005009 sent_twice) = 2
   \<and> length (summaries_of 9 1700000005009 sent_twice) = 2
   \<and> fst (get_user_conversations 5 20 sent_twice) =
     Inr ([\<lparr>ci_conversation_id = 1700000005009, ci_other_user_id = 9,
             ci_last_updated = Isoformat 2000000, ci_last_message = ''again''\<rparr>,
           \<lparr>ci_conversation_id = 1700000005009, ci_other_user_id = 9,
             ci_last_updated = Isoformat 1000000, ci_last_message = ''hello''\<rparr>],
          False)"
  by (simp add: hello_sent second_send five_listed_twice conversation_summaries_def
        summaries_of_def sent_twice_summaries)

section \<open>Paginated reads\<close>

lemma try_except_raise_Inr:
  "try_except m (\<lambda>e. raise (H e)) s = (Inr v, s') \<longleftrightarrow> m s = (Inr v, s')"
  by (auto simp: try_except_def raise_def split: prod.splits sum.splits)

lemma rd_Inr: "rd r t = Inr (v, t') \<longleftrightarrow> r = Inr v \<and> t' = t"
  by (auto simp: rd_def split: sum.splits)

lemma limit_rows_Inr: "limit_rows n rows = Inr xs \<longleftrightarrow> 0 < n \<and> xs = take (nat n) rows"
  by (auto simp: limit_rows_def)

lemma get_conversation_messages_Inr:
  assumes "get_conversation_messages cid limit offset s = (Inr msgs, s')"
  shows "0 < limit + offset
     \<and> msgs = map message_to_dict
         ((if offset > 0 then drop (nat offset) else id)
            (take (nat (limit + offset))
               (clustering_desc (\<lambda>r. (m_created_at r, m_message_id r))
                  (filter (\<lambda>r. m_conversation_id r = cid)
                     (messages_by_conversation (tables s))))))"
  using assms
  by (auto simp: get_conversation_messages_def seq_Inr_iff execute_Inr_iff select_messages_def
        rd_Inr limit_rows_Inr ret_def Let_def)

lemma ctrl_messages_Inr:
  assumes "ctrl_get_conversation_messages str_of cid page limit s = (Inr r, s')"
  shows "0 < limit + (page - 1) * limit
     \<and> messages r = map (to_MessageResponse \<circ> message_to_dict)
         ((if (page - 1) * limit > 0 then drop (nat ((page - 1) * limit)) else id)
            (take (nat (limit + (page - 1) * limit))
               (clustering_desc (\<lambda>r. (m_created_at r, m_message_id r))
                  (filter (\<lambda>r. m_conversation_id r = cid)
                     (messages_by_conversation (tables s))))))
     \<and> has_more r = (int (length (messages r)) = limit)"
proof -
  from assms obtain msgs where
    g: "get_conversation_messages cid limit ((page - 1) * limit) s = (Inr msgs, s')"
    and r: "r = \<lparr>messages = map to_MessageResponse msgs,
                 has_more = (int (length msgs) = limit)\<rparr>"
    by (auto simp: ctrl_get_conversation_messages_def try_except_raise_Inr Let_def seq_Inr_iff
          ret_def)
  from get_conversation_messages_Inr [OF g] show ?thesis
    by (simp add: r)
qed

lemma ctrl_before_Inr:
  assumes "ctrl_get_messages_before_timestamp str_of cid t page limit s = (Inr r, s')"
  shows "0 < limit
     \<and> messages r = map (to_MessageResponse \<circ> message_to_dict)
            (take (nat limit)
               (clustering_desc (\<lambda>r. (m_created_at r, m_message_id r))
                  (filter (\<lambda>r. m_conversation_id r = cid \<and> m_created_at r < to_millis t)
                     (messages_by_conversation (tables s)))))
     \<and> has_more r = (int (length (messages r)) = limit)"
proof -
  from assms obtain msgs where
    g: "get_messages_before_timestamp cid t limit s = (Inr msgs, s')"
    and r: "r = \<lparr>messages = map to_MessageResponse msgs,
                 has_more = (int (length msgs) = limit)\<rparr>"
    by (auto simp: ctrl_get_messages_before_timestamp_def try_except_raise_Inr Let_def
          seq_Inr_iff ret_def)
  from g have "0 < limit \<and> msgs = map message_to_dict
            (take (nat limit)
               (clustering_desc (\<lambda>r. (m_created_at r, m_message_id r))
                  (filter (\<lambda>r. m_conversation_id r = cid \<and> m_created_at r < to_millis t)
                     (messages_by_conversation (tables s)))))"
    by (auto simp: get_messages_before_timestamp_def seq_Inr_iff execute_Inr_iff
          select_messages_before_def rd_Inr limit_rows_Inr ret_def)
  then show ?thesis
    by (simp add: r)
qed

lemma ctrl_conversations_Inr:
  assumes "ctrl_get_user_conversations str_of uid page limit s = (Inr r, s')"
  shows "0 < limit
     \<and> conversations r = map (to_ConversationListItem \<circ> summary_to_dict)
            (take (nat limit)
               (clustering_desc (\<lambda>r. (s_last_message_at r, s_conversation_id r))
                  (filter (\<lambda>r. s_user_id r = uid) (conversations_by_user (tables s)))))
     \<and> pc_has_more r = (int (length (conversations r)) = limit)"
proof -
  from assms obtain convs more where
    g: "get_user_conversations uid limit s = (Inr (convs, more), s')"
    and r: "r = \<lparr>conversations = map to_ConversationListItem convs, pc_has_more = more\<rparr>"
    by (auto simp: ctrl_get_user_conversations_def try_except_raise_Inr seq_Inr_iff ret_def)
  from g have "0 < limit \<and> convs = map summary_to_dict
            (take (nat limit)
               (clustering_desc (\<lambda>r. (s_last_message_at r, s_conversation_id r))
                  (filter (\<lambda>r. s_user_id r = uid) (conversations_by_user (tables s)))))
            \<and> more = (int (length convs) = limit)"
    by (auto simp: get_user_conversations_def seq_Inr_iff execute_Inr_iff
          select_summaries_def rd_Inr limit_rows_Inr ret_def Let_def)
  then show ?thesis
    by (simp add: r)
qed

lemma length_take_int: "0 < n \<Longrightarrow> int (length (take (nat n) xs)) \<le> n"
  by (simp add: min_def, arith)

lemma length_page_int:
  assumes "0 < n + off" and "1 \<le> n"
  shows "int (length ((if 0 < off then drop (nat off) else id) (take (nat (n + off)) xs))) \<le> n"
proof (cases "0 < off")
  case True
  have "length (drop (nat off) (take (nat (n + off)) xs)) \<le> nat (n + off) - nat off"
    by simp
  also have "nat (n + off) - nat off = nat n"
    using True assms by linarith
  finally show ?thesis using True assms by simp
next
  case False
  have "int (length (take (nat (n + off)) xs)) \<le> n + off"
    by (rule length_take_int [OF assms(1)])
  with False show ?thesis by simp
qed

lemma set_page_subset:
  "set ((if 0 < off then drop (nat off) else id) (take n xs)) \<subseteq> set xs"
  by (auto dest: in_set_dropD in_set_takeD)

lemma set_clustering_desc [simp]: "set (clustering_desc ck rows) = set rows"
  by (simp add: clustering_desc_def)

lemma clustering_desc_sorted:
  "sorted_wrt (\<lambda>x y. ck y \<le> ck x) (clustering_desc ck rows)"
proof -
  have "sorted (map ck (sort_key ck rows))" by (rule sorted_sort_key)
  then have "sorted_wrt (\<lambda>x y. ck x \<le> ck y) (sort_key ck rows)"
    by (simp add: sorted_map)
  then show ?thesis
    by (simp add: clustering_desc_def sorted_wrt_rev)
qed

lemma page_sorted:
  assumes "sorted_wrt P xs"
  shows "sorted_wrt P ((if 0 < off then drop (nat off) else id) (take n xs))"
  using assms by (simp add: sorted_wrt_take sorted_wrt_drop)

lemma response_key_row [simp]:
  "response_key (to_MessageResponse (message_to_dict r)) =
     (from_millis (m_created_at r), m_message_id r)"
  by (simp add: response_key_def to_MessageResponse_def message_to_dict_def)

lemma from_millis_key_mono:
  "(a, x) \<le> (b, y) \<Longrightarrow> (from_millis a, x) \<le> (from_millis b, y)" for x y :: nat
  by (auto simp: from_millis_def)

text \<open>
  C5. Pagination bound: for every limit of at least 1, a page of conversation messages that
  is returned holds at most \<open>limit\<close> messages, whatever the page number, and its
  \<open>has_more\<close> flag is true exactly when it holds \<open>limit\<close> messages; the same holds
  for the page of a user's conversations.
\<close>

theorem pagination_bound:
  "(ctrl_get_conversation_messages str_of cid page limit s = (Inr r, s') \<and> 1 \<le> limit \<longrightarrow>
      int (length (messages r)) \<le> limit \<and>
      (has_more r \<longleftrightarrow> int (length (messages r)) = limit))
   \<and> (ctrl_get_user_conversations str_of uid page' limit' t = (Inr r', t') \<and> 1 \<le> limit' \<longrightarrow>
      int (length (conversations r')) \<le> limit' \<and>
      (pc_has_more r' \<longleftrightarrow> int (length (conversations r')) = limit'))"
proof (intro conjI impI)
  assume h: "ctrl_get_conversation_messages str_of cid page limit s = (Inr r, s') \<and> 1 \<le> limit"
  note m = ctrl_messages_Inr [OF h [THEN conjunct1]]
  from m show "has_more r \<longleftrightarrow> int (length (messages r)) = limit" by blast
  from m have pos: "0 < limit + (page - 1) * limit" by blast
  from h have one: "1 \<le> limit" by blast
  from m have eq: "length (messages r) =
      length ((if 0 < (page - 1) * limit then drop (nat ((page - 1) * limit)) else id)
                (take (nat (limit + (page - 1) * limit))
                   (clustering_desc (\<lambda>r. (m_created_at r, m_message_id r))
                      (filter (\<lambda>r. m_conversation_id r = cid)
                         (messages_by_conversation (tables s))))))"
    by simp
  show "int (length (messages r)) \<le> limit"
    unfolding eq by (rule length_page_int [OF pos one])
next
  assume h: "ctrl_get_user_conversations str_of uid page' limit' t = (Inr r', t') \<and> 1 \<le> limit'"
  note m = ctrl_conversations_Inr [OF h [THEN conjunct1]]
  from m show "pc_has_more r' \<longleftrightarrow> int (length (conversations r')) = limit'" by blast
  from m have pos: "0 < limit'" by blast
  from m have eq: "length (conversations r') =
      length (take (nat limit')
               (clustering_desc (\<lambda>r. (s_last_message_at r, s_conversation_id r))
                  (filter (\<lambda>r. s_user_id r = uid) (conversations_by_user (tables t)))))"
    by simp
  show "int (length (conversations r')) \<le> limit'"
    unfolding eq by (rule length_take_int [OF pos])
qed

text \<open>
  C6. Chronological ordering: a returned page of conversation messages is ordered
  most-recent-first by \<open>(created_at desc, message_id desc)\<close>; of two messages on it, the
  one created earlier stands after the one created later; and every message on it belongs
  to the conversation asked for.
\<close>

theorem messages_most_recent_first:
  assumes "ctrl_get_conversation_messages str_of cid page limit s = (Inr r, s')"
  shows "sorted_wrt (\<lambda>x y. response_key y \<le> response_key x) (messages r)
       \<and> (\<forall>i j. i < length (messages r) \<and> j < length (messages r) \<and>
                 datetime_of (timestamp (messages r ! i)) < datetime_of (timestamp (messages r ! j))
                 \<longrightarrow> j < i)
       \<and> (\<forall>m \<in> set (messages r). conversation_id m = cid)"
proof -
  note m = ctrl_messages_Inr [OF assms]
  let ?rows = "(if (page - 1) * limit > 0 then drop (nat ((page - 1) * limit)) else id)
            (take (nat (limit + (page - 1) * limit))
               (clustering_desc (\<lambda>r. (m_created_at r, m_message_id r))
                  (filter (\<lambda>r. m_conversation_id r = cid)
                     (messages_by_conversation (tables s)))))"
  have rows: "messages r = map (to_MessageResponse \<circ> message_to_dict) ?rows"
    using m by simp
  have "sorted_wrt (\<lambda>x y. (m_created_at y, m_message_id y) \<le> (m_created_at x, m_message_id x))
          ?rows"
    by (rule page_sorted) (rule clustering_desc_sorted)
  then have "sorted_wrt (\<lambda>x y. (from_millis (m_created_at y), m_message_id y)
                             \<le> (from_millis (m_created_at x), m_message_id x)) ?rows"
    by (rule sorted_wrt_mono_rel [rotated]) (rule from_millis_key_mono)
  then have srt: "sorted_wrt (\<lambda>x y. response_key y \<le> response_key x) (messages r)"
    by (simp add: rows sorted_wrt_map)
  have idx: "j < i" if "i < length (messages r)" "j < length (messages r)"
      "datetime_of (timestamp (messages r ! i)) < datetime_of (timestamp (messages r ! j))"
    for i j
  proof (rule ccontr)
    assume "\<not> j < i"
    then consider "i = j" | "i < j" by linarith
    then show False
    proof cases
      case 1
      with that show False by simp
    next
      case 2
      with srt that have "response_key (messages r ! j) \<le> response_key (messages r ! i)"
        by (simp add: sorted_wrt_iff_nth_less)
      with that(3) show False
        by (auto simp: response_key_def)
    qed
  qed
  have "set ?rows \<subseteq> set (filter (\<lambda>r. m_conversation_id r = cid)
                            (messages_by_conversation (tables s)))"
    using set_page_subset [of "(page - 1) * limit" "nat (limit + (page - 1) * limit)"
       "clustering_desc (\<lambda>r. (m_created_at r, m_message_id r))
                  (filter (\<lambda>r. m_conversation_id r = cid)
                     (messages_by_conversation (tables s)))"]
    by simp
  then have conv: "\<forall>m \<in> set (messages r). conversation_id m = cid"
    by (auto simp: rows to_MessageResponse_def message_to_dict_def)
  from srt idx conv show ?thesis by blast
qed

text \<open>
  C7. Timestamp filter: every message returned by the before-timestamp listing has
  \<open>created_at\<close> strictly below the timestamp given (and belongs to the conversation asked
  for); no message created at or after it is included.
\<close>

theorem messages_before_strictly_older:
  assumes "ctrl_get_messages_before_timestamp str_of cid t page limit s = (Inr r, s')"
  shows "\<forall>m \<in> set (messages r). datetime_of (timestamp m) < t \<and> conversation_id m = cid"
proof -
  note m = ctrl_before_Inr [OF assms]
  have "set (take (nat limit)
               (clustering_desc (\<lambda>r. (m_created_at r, m_message_id r))
                  (filter (\<lambda>r. m_conversation_id r = cid \<and> m_created_at r < to_millis t)
                     (messages_by_conversation (tables s)))))
        \<subseteq> set (filter (\<lambda>r. m_conversation_id r = cid \<and> m_created_at r < to_millis t)
                     (messages_by_conversation (tables s)))"
    using set_take_subset [of "nat limit" "clustering_desc (\<lambda>r. (m_created_at r, m_message_id r))
                  (filter (\<lambda>r. m_conversation_id r = cid \<and> m_created_at r < to_millis t)
                     (messages_by_conversation (tables s)))"]
    by simp
  with m show ?thesis
    by (auto simp: to_MessageResponse_def message_to_dict_def intro: millis_lt)
qed


lemma first_page_of_one:
  "fst (ctrl_get_conversation_messages str_of 1700000005009 1 1 sent_twice) =
     Inr \<lparr>messages =
            [\<lparr>message_id = Str 8, sender_id = 9, receiver_id = 5,
              conversation_id = 1700000005009, content = ''again'',
              timestamp = Isoformat 2000000\<rparr>],
          has_more = True\<rparr>"
  by (simp add: read_defs)

lemma first_page_of_twenty:
  "fst (ctrl_get_conversation_messages str_of 1700000005009 1 20 sent_twice) =
     Inr \<lparr>messages =
            [\<lparr>message_id = Str 8, sender_id = 9, receiver_id = 5,
              conversation_id = 1700000005009, content = ''again'',
              timestamp = Isoformat 2000000\<rparr>,
             \<lparr>message_id = Str 7, sender_id = 5, receiver_id = 9,
              conversation_id = 1700000005009, content = ''hello'',
              timestamp = Isoformat 1000000\<rparr>],
          has_more = False\<rparr>"
  by (simp add: read_defs)

lemma conversations_of_five:
  "fst (ctrl_get_user_conversations str_of 5 1 1 sent_twice) =
     Inr \<lparr>conversations =
            [\<lparr>li_conversation_id = 1700000005009, li_other_user_id = 9,
              li_last_updated = Isoformat 2000000, li_last_message = ''again''\<rparr>],
          pc_has_more = True\<rparr>"
  by (simp add: read_defs)

lemma before_two_thousand:
  "fst (ctrl_get_messages_before_timestamp str_of 1700000005009 2000000 1 20 sent_twice) =
     Inr \<lparr>messages =
            [\<lparr>message_id = Str 7, sender_id = 5, receiver_id = 9,
              conversation_id = 1700000005009, content = ''hello'',
              timestamp = Isoformat 1000000\<rparr>],
          has_more = False\<rparr>"
  by (simp add: read_defs)


theorem pagination_bound_witness:
  "\<forall>str_of.
   fst (ctrl_get_conversation_messages str_of 1700000005009 1 1 sent_twice) =
        Inr \<lparr>messages =
               [\<lparr>message_id = Str 8, sender_id = 9, receiver_id = 5,
                 conversation_id = 1700000005009, content = ''again'',
                 timestamp = Isoformat 2000000\<rparr>],
             has_more = True\<rparr>
      \<and> fst (ctrl_get_user_conversations str_of 5 1 1 sent_twice) =
        Inr \<lparr>conversations =
               [\<lparr>li_conversation_id = 1700000005009, li_other_user_id = 9,
                 li_last_updated = Isoformat 2000000, li_last_message = ''again''\<rparr>],
             pc_has_more = True\<rparr>
      \<and> (1::int) \<le> 1
      \<and> int (length (messages
           \<lparr>messages =
               [\<lparr>message_id = Str 8, sender_id = 9, receiver_id = 5,
                 conversation_id = 1700000005009, content = ''again'',
                 timestamp = Isoformat 2000000\<rparr>],
             has_more = True\<rparr>)) \<le> 1
      \<and> int (length (conversations
           \<lparr>conversations =
               [\<lparr>li_conversation_id = 1700000005009, li_other_user_id = 9,
                 li_last_updated = Isoformat 2000000, li_last_message = ''again''\<rparr>],
             pc_has_more = True\<rparr>)) \<le> 1"
  (is "\<forall>str_of. ?P str_of")
proof
  fix str_of :: "exn \<Rightarrow> string"
  have one: "(1::int) \<le> 1" by simp
  note T1 = pagination_bound
    [THEN conjunct1, THEN mp,
     OF conjI [OF pair_collapse [OF first_page_of_one [of str_of]] one]]
  note T2 = pagination_bound
    [THEN conjunct2, THEN mp,
     OF conjI [OF pair_collapse [OF conversations_of_five [of str_of]] one]]
  show "?P str_of"
    using T1 T2 first_page_of_one [of str_of] conversations_of_five [of str_of] by simp
qed

theorem messages_most_recent_first_witness:
  "\<forall>str_of.
   fst (ctrl_get_conversation_messages str_of 1700000005009 1 20 sent_twice) =
        Inr \<lparr>messages =
               [\<lparr>message_id = Str 8, sender_id = 9, receiver_id = 5,
                 conversation_id = 1700000005009, content = ''again'',
                 timestamp = Isoformat 2000000\<rparr>,
                \<lparr>message_id = Str 7, sender_id = 5, receiver_id = 9,
                 conversation_id = 1700000005009, content = ''hello'',
                 timestamp = Isoformat 1000000\<rparr>],
             has_more = False\<rparr>
      \<and> sorted_wrt (\<lambda>x y. response_key y \<le> response_key x)
           [\<lparr>message_id = Str 8, sender_id = 9, receiver_id = 5,
                 conversation_id = 1700000005009, content = ''again'',
                 timestamp = Isoformat 2000000\<rparr>,
                \<lparr>message_id = Str 7, sender_id = 5, receiver_id = 9,
                 conversation_id = 1700000005009, content = ''hello'',
                 timestamp = Isoformat 1000000\<rparr>]"
  (is "\<forall>str_of. ?P str_of")
proof
  fix str_of :: "exn \<Rightarrow> string"
  show "?P str_of"
    using messages_most_recent_first [OF pair_collapse [OF first_page_of_twenty [of str_of]]]
      first_page_of_twenty [of str_of]
    by simp
qed

theorem messages_before_strictly_older_witness:
  "\<forall>str_of.
   fst (ctrl_get_messages_before_timestamp str_of 1700000005009 2000000 1 20 sent_twice) =
        Inr \<lparr>messages =
               [\<lparr>message_id = Str 7, sender_id = 5, receiver_id = 9,
                 conversation_id = 1700000005009, content = ''hello'',
                 timestamp = Isoformat 1000000\<rparr>],
             has_more = False\<rparr>
      \<and> datetime_of (timestamp
           \<lparr>message_id = Str 7, sender_id = 5, receiver_id = 9,
                 conversation_id = 1700000005009, content = ''hello'',
                 timestamp = Isoformat 1000000\<rparr>) < 2000000"
  (is "\<forall>str_of. ?P str_of")
proof
  fix str_of :: "exn \<Rightarrow> string"
  show "?P str_of"
    using messages_before_strictly_older [OF pair_collapse [OF before_two_thousand [of str_of]]]
      before_two_thousand [of str_of]
    by simp
qed

section \<open>Failures at the service layer\<close>

lemma try_except_fst_Inl:
  "fst (try_except m (\<lambda>e. raise (H e)) s) = Inl x \<Longrightarrow> \<exists>cause. x = H cause"
  by (auto simp: try_except_def raise_def split: prod.splits sum.splits)

lemma execute_fault:
  "faults s = Some e # fs \<Longrightarrow>
   execute q run s =
     (Inl e, s\<lparr>faults := fs, executed := executed s @ [q], error_log := error_log s @ [e]\<rparr>)"
  by (simp add: execute_def)

lemma resolve_fault:
  "faults s = Some e # fs \<Longrightarrow>
   create_or_get_conversation clk a b s =
     (Inl e, s\<lparr>faults := fs, executed := executed s @ [SELECT_user_conversations_lookup],
               error_log := error_log s @ [e]\<rparr>)"
  by (simp add: create_or_get_conversation_def seq_def execute_fault split: prod.splits)

subsection \<open>No exception of the storage layer is swallowed\<close>

lemma surfaces_ret: "surfaces (ret v)"
  by (simp add: surfaces_def ret_def)

lemma surfaces_raise: "surfaces (raise e)"
  by (simp add: surfaces_def raise_def)

lemma surfaces_execute: "surfaces (execute q run)"
  unfolding surfaces_def
proof (intro allI impI)
  fix s r s'
  assume "execute q run s = (r, s')"
  then have "(error_log s' = error_log s \<and> (\<exists>v. r = Inr v))
           \<or> (\<exists>e. error_log s' = error_log s @ [e] \<and> r = Inl e)"
    by (auto simp: execute_def Let_def split: list.splits option.splits sum.splits)
  then show "\<exists>es. error_log s' = error_log s @ es \<and> (\<forall>e \<in> set es. r = Inl e)"
  proof
    assume "error_log s' = error_log s \<and> (\<exists>v. r = Inr v)"
    then have "error_log s' = error_log s @ [] \<and> (\<forall>e \<in> set []. r = Inl e)" by simp
    then show ?thesis by blast
  next
    assume "\<exists>e. error_log s' = error_log s @ [e] \<and> r = Inl e"
    then obtain e where "error_log s' = error_log s @ [e] \<and> (\<forall>x \<in> set [e]. r = Inl x)"
      by auto
    then show ?thesis by blast
  qed
qed

lemma surfaces_seq:
  assumes m: "surfaces m" and f: "\<And>x. surfaces (f x)"
  shows "surfaces (seq m f)"
  unfolding surfaces_def
proof (intro allI impI)
  fix s r s'
  assume run: "seq m f s = (r, s')"
  obtain r1 s1 where ms: "m s = (r1, s1)" by (cases "m s")
  with m obtain es1 where
    l1: "error_log s1 = error_log s @ es1" and e1: "\<forall>e \<in> set es1. r1 = Inl e"
    unfolding surfaces_def by blast
  show "\<exists>es. error_log s' = error_log s @ es \<and> (\<forall>e \<in> set es. r = Inl e)"
  proof (cases r1)
    case (Inl x)
    with run ms have r: "r = Inl x" and s': "s' = s1" by (simp_all add: seq_def)
    from e1 Inl have "\<forall>e \<in> set es1. x = e" by simp
    with r have "\<forall>e \<in> set es1. r = Inl e" by simp
    with l1 s' show ?thesis by blast
  next
    case (Inr x)
    with e1 have none: "es1 = []" by (cases es1) auto
    from Inr run ms have "f x s1 = (r, s')" by (simp add: seq_def)
    with f [of x] obtain es2 where
      "error_log s' = error_log s1 @ es2" and "\<forall>e \<in> set es2. r = Inl e"
      unfolding surfaces_def by blast
    with l1 none show ?thesis by simp
  qed
qed

lemma surfaces_resolve: "surfaces (create_or_get_conversation clk a b)"
proof -
  have body: "surfaces
     (seq (execute SELECT_user_conversations_lookup (select_lookup u1 u2))
           (\<lambda>rows. case rows of
                [] \<Rightarrow>
                  seq (execute INSERT_user_conversations_lookup
                         (insert_lookup u1 u2 (time_ms clk + u1 * 1000 + u2 mod 1000)))
                    (\<lambda>_. seq (execute INSERT_conversation_metadata
                                (insert_metadata (time_ms clk + u1 * 1000 + u2 mod 1000)
                                   u1 u2 (utcnow clk)))
                           (\<lambda>_. ret (time_ms clk + u1 * 1000 + u2 mod 1000)))
              | c # _ \<Rightarrow> ret c))" for u1 u2
  proof (rule surfaces_seq)
    show "surfaces (execute SELECT_user_conversations_lookup (select_lookup u1 u2))"
      by (rule surfaces_execute)
  next
    fix rows :: "int list"
    show "surfaces (case rows of
                [] \<Rightarrow>
                  seq (execute INSERT_user_conversations_lookup
                         (insert_lookup u1 u2 (time_ms clk + u1 * 1000 + u2 mod 1000)))
                    (\<lambda>_. seq (execute INSERT_conversation_metadata
                                (insert_metadata (time_ms clk + u1 * 1000 + u2 mod 1000)
                                   u1 u2 (utcnow clk)))
                           (\<lambda>_. ret (time_ms clk + u1 * 1000 + u2 mod 1000)))
              | c # _ \<Rightarrow> ret c)"
      by (cases rows) (simp_all add: surfaces_seq surfaces_execute surfaces_ret)
  qed
  show ?thesis
    by (simp add: create_or_get_conversation_def Let_def body)
qed

lemma surfaces_create_message:
  "surfaces (create_message ts mid clk a b text copt)"
  unfolding create_message_def
proof (rule surfaces_seq)
  show "surfaces (case copt of None \<Rightarrow> create_or_get_conversation clk a b | Some c \<Rightarrow> ret c)"
    by (cases copt) (simp_all add: surfaces_resolve surfaces_ret)
next
  fix cid
  show "surfaces
          (seq (execute INSERT_messages_by_conversation
                 (insert_message cid ts mid a b text))
            (\<lambda>_. seq (execute INSERT_conversations_by_user
                        (insert_summary a ts cid b text))
               (\<lambda>_. seq (execute INSERT_conversations_by_user
                           (insert_summary b ts cid a text))
                  (\<lambda>_. seq (execute UPDATE_conversation_metadata
                              (update_metadata ts text cid))
                     (\<lambda>_. ret \<lparr>d_message_id = Str mid,
                                d_conversation_id = cid,
                                d_sender_id = a,
                                d_receiver_id = b,
                                d_content = text,
                                d_timestamp = Isoformat ts\<rparr>)))))"
    by (intro surfaces_seq surfaces_execute surfaces_ret)
qed

lemma surfaces_get_messages: "surfaces (get_conversation_messages cid limit offset)"
  unfolding get_conversation_messages_def Let_def
  by (intro surfaces_seq surfaces_execute surfaces_ret)

lemma surfaces_get_before: "surfaces (get_messages_before_timestamp cid before limit)"
  unfolding get_messages_before_timestamp_def
  by (intro surfaces_seq surfaces_execute surfaces_ret)

lemma surfaces_get_user_conversations: "surfaces (get_user_conversations uid limit)"
  unfolding get_user_conversations_def Let_def
  by (intro surfaces_seq surfaces_execute surfaces_ret)

lemma surfaces_get_conversation: "surfaces (get_conversation cid)"
  unfolding get_conversation_def
proof (rule surfaces_seq)
  show "surfaces (execute SELECT_conversation_metadata (select_metadata cid))"
    by (rule surfaces_execute)
next
  fix rows :: "(int \<times> metadata_row) list"
  show "surfaces (case rows of
            [] \<Rightarrow> ret None
          | (cid, row) # _ \<Rightarrow>
              (case md_created_at row of
                 None \<Rightarrow> raise (AttributeError
                   ''NoneType object has no attribute isoformat'')
               | Some created \<Rightarrow>
                   ret (Some \<lparr>c_conversation_id = cid,
                              c_participant_ids = [md_user1_id row, md_user2_id row],
                              c_created_at = Isoformat (from_millis created),
                              c_last_updated =
                                (case md_last_message_at row of
                                   Some t \<Rightarrow> Isoformat (from_millis t)
                                 | None \<Rightarrow> Isoformat (from_millis created))\<rparr>)))"
    by (auto simp: surfaces_ret surfaces_raise split: list.splits option.splits)
qed

lemma surfaces_to_response: "surfaces (to_ConversationResponse c)"
  by (simp add: to_ConversationResponse_def surfaces_ret surfaces_raise)

lemma surfaces_try:
  assumes m: "surfaces m"
    and run: "try_except m (\<lambda>e. raise (H e)) s = (r, s')"
    and e: "e \<in> set (raised_during s s')"
  shows "r = Inl (H e)"
proof -
  obtain r0 s0 where ms: "m s = (r0, s0)" by (cases "m s")
  with run have s': "s' = s0"
    by (cases r0) (simp_all add: try_except_def raise_def)
  from m ms obtain es where
    l: "error_log s0 = error_log s @ es" and a: "\<forall>x \<in> set es. r0 = Inl x"
    unfolding surfaces_def by blast
  from e have "e \<in> set es" by (simp add: raised_during_def s' l)
  with a have "r0 = Inl e" by blast
  with run ms show ?thesis by (simp add: try_except_def raise_def)
qed

lemma surfaces_try_fst:
  assumes "surfaces m"
  shows "\<forall>e \<in> set (raised_during s (snd (try_except m (\<lambda>e. raise (H e)) s))).
           fst (try_except m (\<lambda>e. raise (H e)) s) = Inl (H e)"
proof
  fix e
  assume "e \<in> set (raised_during s (snd (try_except m (\<lambda>e. raise (H e)) s)))"
  with surfaces_try [OF assms, of H s "fst (try_except m (\<lambda>e. raise (H e)) s)"
      "snd (try_except m (\<lambda>e. raise (H e)) s)" e]
  show "fst (try_except m (\<lambda>e. raise (H e)) s) = Inl (H e)" by simp
qed

lemma surfaces_send:
  "surfaces (seq (create_message now mid clk a b text None)
               (\<lambda>message. ret (to_MessageResponse message)))"
  by (intro surfaces_seq surfaces_create_message surfaces_ret)

lemma surfaces_list_messages:
  "surfaces (let offset = (page - 1) * limit
             in seq (get_conversation_messages cid limit offset)
                  (\<lambda>msgs. let more = (int (length msgs) = limit)
                          in ret \<lparr>messages = map to_MessageResponse msgs, has_more = more\<rparr>))"
  unfolding Let_def by (intro surfaces_seq surfaces_get_messages surfaces_ret)

lemma surfaces_list_before:
  "surfaces (seq (get_messages_before_timestamp cid before limit)
               (\<lambda>msgs. let more = (int (length msgs) = limit)
                       in ret \<lparr>messages = map to_MessageResponse msgs, has_more = more\<rparr>))"
  unfolding Let_def by (intro surfaces_seq surfaces_get_before surfaces_ret)

lemma surfaces_list_conversations:
  "surfaces (seq (get_user_conversations uid limit)
               (\<lambda>(convs, hm).
                   ret \<lparr>conversations = map to_ConversationListItem convs,
                        pc_has_more = hm\<rparr>))"
proof (rule surfaces_seq)
  show "surfaces (get_user_conversations uid limit)"
    by (rule surfaces_get_user_conversations)
next
  fix x :: "conversation_item_dict list \<times> bool"
  show "surfaces (case x of (convs, hm) \<Rightarrow>
                    ret \<lparr>conversations = map to_ConversationListItem convs,
                         pc_has_more = hm\<rparr>)"
    by (cases x) (simp add: surfaces_ret)
qed

lemma surfaces_resolve_and_reread:
  "surfaces (seq (create_or_get_conversation clk a b)
               (\<lambda>cid. seq (get_conversation cid)
                  (\<lambda>conversation. case conversation of
                       None \<Rightarrow> raise (HTTPException HTTP_404
                                       ''Failed to retrieve conversation after creation'')
                     | Some c \<Rightarrow> to_ConversationResponse c)))"
proof (intro surfaces_seq surfaces_resolve surfaces_get_conversation)
  fix cid :: int and conversation :: "conversation_dict option"
  show "surfaces (case conversation of
                    None \<Rightarrow> raise (HTTPException HTTP_404
                                    ''Failed to retrieve conversation after creation'')
                  | Some c \<Rightarrow> to_ConversationResponse c)"
    by (cases conversation) (simp_all add: surfaces_raise surfaces_to_response)
qed

text \<open>
  C9. Whatever the storage layer raises during \<open>sendMessage\<close>,
  \<open>listConversationMessages\<close>, \<open>listMessagesBefore\<close>, \<open>listUserConversations\<close> or
  \<open>resolveOrCreateConversation\<close>, the service layer answers with one generic failure.
  Every failure of these five operations is an HTTP 500 whose detail is the operation's
  fixed prefix followed by the text of the exception caught. Every exception that
  \<open>execute\<close> raises (and logs) while one of them runs, at whichever statement and of
  whatever kind, ends the operation with exactly that HTTP 500, its detail the prefix
  followed by the text of that exception: none is swallowed and none comes out under
  another status. In particular an exception on the first statement does.
\<close>

theorem storage_errors_become_generic_failure:
  "(fst (send_message str_of now mid clk a b text s) = Inl e1 \<longrightarrow>
      (\<exists>cause. e1 = HTTPException HTTP_500 (''Failed to send message: '' @ str_of cause)))
   \<and> (fst (ctrl_get_conversation_messages str_of cid page limit s) = Inl e2 \<longrightarrow>
      (\<exists>cause. e2 = HTTPException HTTP_500 (''Failed to get messages: '' @ str_of cause)))
   \<and> (fst (ctrl_get_messages_before_timestamp str_of cid before page limit s) = Inl e3 \<longrightarrow>
      (\<exists>cause. e3 = HTTPException HTTP_500 (''Failed to get messages: '' @ str_of cause)))
   \<and> (fst (ctrl_get_user_conversations str_of uid page limit s) = Inl e4 \<longrightarrow>
      (\<exists>cause. e4 = HTTPException HTTP_500 (''Failed to get conversations: '' @ str_of cause)))
   \<and> (fst (ctrl_create_or_get_conversation str_of clk a b s) = Inl e5 \<longrightarrow>
      (\<exists>cause. e5 = HTTPException HTTP_500 (''Failed to create conversation: '' @ str_of cause)))
   \<and> (\<forall>e \<in> set (raised_during s (snd (send_message str_of now mid clk a b text s))).
        fst (send_message str_of now mid clk a b text s) =
          Inl (HTTPException HTTP_500 (''Failed to send message: '' @ str_of e)))
   \<and> (\<forall>e \<in> set (raised_during s (snd (ctrl_get_conversation_messages str_of cid page limit s))).
        fst (ctrl_get_conversation_messages str_of cid page limit s) =
          Inl (HTTPException HTTP_500 (''Failed to get messages: '' @ str_of e)))
   \<and> (\<forall>e \<in> set (raised_during s
                    (snd (ctrl_get_messages_before_timestamp str_of cid before page limit s))).
        fst (ctrl_get_messages_before_timestamp str_of cid before page limit s) =
          Inl (HTTPException HTTP_500 (''Failed to get messages: '' @ str_of e)))
   \<and> (\<forall>e \<in> set (raised_during s (snd (ctrl_get_user_conversations str_of uid page limit s))).
        fst (ctrl_get_user_conversations str_of uid page limit s) =
          Inl (HTTPException HTTP_500 (''Failed to get conversations: '' @ str_of e)))
   \<and> (\<forall>e \<in> set (raised_during s (snd (ctrl_create_or_get_conversation str_of clk a b s))).
        fst (ctrl_create_or_get_conversation str_of clk a b s) =
          Inl (HTTPException HTTP_500 (''Failed to create conversation: '' @ str_of e)))
   \<and> (faults s = Some e # fs \<longrightarrow>
        fst (send_message str_of now mid clk a b text s) =
          Inl (HTTPException HTTP_500 (''Failed to send message: '' @ str_of e))
      \<and> fst (ctrl_get_conversation_messages str_of cid page limit s) =
          Inl (HTTPException HTTP_500 (''Failed to get messages: '' @ str_of e))
      \<and> fst (ctrl_get_messages_before_timestamp str_of cid before page limit s) =
          Inl (HTTPException HTTP_500 (''Failed to get messages: '' @ str_of e))
      \<and> fst (ctrl_get_user_conversations str_of uid page limit s) =
          Inl (HTTPException HTTP_500 (''Failed to get conversations: '' @ str_of e))
      \<and> fst (ctrl_create_or_get_conversation str_of clk a b s) =
          Inl (HTTPException HTTP_500 (''Failed to create conversation: '' @ str_of e)))"
proof (intro conjI impI)
  show "\<exists>cause. e1 = HTTPException HTTP_500 (''Failed to send message: '' @ str_of cause)"
    if "fst (send_message str_of now mid clk a b text s) = Inl e1"
    using that unfolding send_message_def by (rule try_except_fst_Inl)
  show "\<exists>cause. e2 = HTTPException HTTP_500 (''Failed to get messages: '' @ str_of cause)"
    if "fst (ctrl_get_conversation_messages str_of cid page limit s) = Inl e2"
    using that unfolding ctrl_get_conversation_messages_def by (rule try_except_fst_Inl)
  show "\<exists>cause. e3 = HTTPException HTTP_500 (''Failed to get messages: '' @ str_of cause)"
    if "fst (ctrl_get_messages_before_timestamp str_of cid before page limit s) = Inl e3"
    using that unfolding ctrl_get_messages_before_timestamp_def by (rule try_except_fst_Inl)
  show "\<exists>cause. e4 = HTTPException HTTP_500 (''Failed to get conversations: '' @ str_of cause)"
    if "fst (ctrl_get_user_conversations str_of uid page limit s) = Inl e4"
    using that unfolding ctrl_get_user_conversations_def by (rule try_except_fst_Inl)
  show "\<exists>cause. e5 = HTTPException HTTP_500 (''Failed to create conversation: '' @ str_of cause)"
    if "fst (ctrl_create_or_get_conversation str_of clk a b s) = Inl e5"
    using that unfolding ctrl_create_or_get_conversation_def by (rule try_except_fst_Inl)
  show "\<forall>e \<in> set (raised_during s (snd (send_message str_of now mid clk a b text s))).
        fst (send_message str_of now mid clk a b text s) =
          Inl (HTTPException HTTP_500 (''Failed to send message: '' @ str_of e))"
    unfolding send_message_def
    by (rule surfaces_try_fst
          [where H = "\<lambda>e. HTTPException HTTP_500 (''Failed to send message: '' @ str_of e)"])
       (rule surfaces_send)
  show "\<forall>e \<in> set (raised_during s (snd (ctrl_get_conversation_messages str_of cid page limit s))).
        fst (ctrl_get_conversation_messages str_of cid page limit s) =
          Inl (HTTPException HTTP_500 (''Failed to get messages: '' @ str_of e))"
    unfolding ctrl_get_conversation_messages_def
    by (rule surfaces_try_fst
          [where H = "\<lambda>e. HTTPException HTTP_500 (''Failed to get messages: '' @ str_of e)"])
       (rule surfaces_list_messages)
  show "\<forall>e \<in> set (raised_during s
                    (snd (ctrl_get_messages_before_timestamp str_of cid before page limit s))).
        fst (ctrl_get_messages_before_timestamp str_of cid before page limit s) =
          Inl (HTTPException HTTP_500 (''Failed to get messages: '' @ str_of e))"
    unfolding ctrl_get_messages_before_timestamp_def
    by (rule surfaces_try_fst
          [where H = "\<lambda>e. HTTPException HTTP_500 (''Failed to get messages: '' @ str_of e)"])
       (rule surfaces_list_before)
  show "\<forall>e \<in> set (raised_during s (snd (ctrl_get_user_conversations str_of uid page limit s))).
        fst (ctrl_get_user_conversations str_of uid page limit s) =
          Inl (HTTPException HTTP_500 (''Failed to get conversations: '' @ str_of e))"
    unfolding ctrl_get_user_conversations_def
    by (rule surfaces_try_fst
          [where H = "\<lambda>e. HTTPException HTTP_500
                            (''Failed to get conversations: '' @ str_of e)"])
       (rule surfaces_list_conversations)
  show "\<forall>e \<in> set (raised_during s (snd (ctrl_create_or_get_conversation str_of clk a b s))).
        fst (ctrl_create_or_get_conversation str_of clk a b s) =
          Inl (HTTPException HTTP_500 (''Failed to create conversation: '' @ str_of e))"
    unfolding ctrl_create_or_get_conversation_def
    by (rule surfaces_try_fst
          [where H = "\<lambda>e. HTTPException HTTP_500
                            (''Failed to create conversation: '' @ str_of e)"])
       (rule surfaces_resolve_and_reread)
next
  assume f: "faults s = Some e # fs"
  note r = resolve_fault [OF f, of clk a b]
  show "fst (send_message str_of now mid clk a b text s) =
          Inl (HTTPException HTTP_500 (''Failed to send message: '' @ str_of e))"
    by (simp add: send_message_def create_message_def try_except_def seq_def raise_def r)
  show "fst (ctrl_get_conversation_messages str_of cid page limit s) =
          Inl (HTTPException HTTP_500 (''Failed to get messages: '' @ str_of e))"
    by (simp add: ctrl_get_conversation_messages_def get_conversation_messages_def
          try_except_def seq_def raise_def execute_fault [OF f] Let_def)
  show "fst (ctrl_get_messages_before_timestamp str_of cid before page limit s) =
          Inl (HTTPException HTTP_500 (''Failed to get messages: '' @ str_of e))"
    by (simp add: ctrl_get_messages_before_timestamp_def get_messages_before_timestamp_def
          try_except_def seq_def raise_def execute_fault [OF f])
  show "fst (ctrl_get_user_conversations str_of uid page limit s) =
          Inl (HTTPException HTTP_500 (''Failed to get conversations: '' @ str_of e))"
    by (simp add: ctrl_get_user_conversations_def get_user_conversations_def
          try_except_def seq_def raise_def execute_fault [OF f])
  show "fst (ctrl_create_or_get_conversation str_of clk a b s) =
          Inl (HTTPException HTTP_500 (''Failed to create conversation: '' @ str_of e))"
    by (simp add: ctrl_create_or_get_conversation_def try_except_def seq_def raise_def r)
qed

lemma down_db_faults: "faults down_db = [Some (NoHostAvailable ''no host'')]"
  by (simp add: down_db_def fresh_db_def)

lemma flaky_send_log:
  "raised_during flaky_db (snd (send_message str_of 1000456 7 clk0 5 9 ''hello'' flaky_db)) =
     [OperationTimedOut ''timed out'']
   \<and> executed (snd (send_message str_of 1000456 7 clk0 5 9 ''hello'' flaky_db)) =
       [SELECT_user_conversations_lookup, INSERT_user_conversations_lookup,
        INSERT_conversation_metadata, INSERT_messages_by_conversation,
        INSERT_conversations_by_user]"
  by (simp add: raised_during_def send_message_def flaky_db_def run_defs)

lemma lossy_resolve_log:
  "raised_during lossy_db (snd (ctrl_create_or_get_conversation str_of clk0 5 9 lossy_db)) =
     [OperationTimedOut ''timed out'']
   \<and> executed (snd (ctrl_create_or_get_conversation str_of clk0 5 9 lossy_db)) =
       [SELECT_user_conversations_lookup, INSERT_user_conversations_lookup,
        INSERT_conversation_metadata]"
  by (simp add: raised_during_def ctrl_create_or_get_conversation_def lossy_db_def run_defs)

theorem storage_errors_become_generic_failure_witness:
  "\<forall>str_of.
     faults down_db = [Some (NoHostAvailable ''no host'')]
   \<and> fst (send_message str_of 1000456 7 clk0 5 9 ''hello'' down_db) =
       Inl (HTTPException HTTP_500
              (''Failed to send message: '' @ str_of (NoHostAvailable ''no host'')))
   \<and> fst (ctrl_get_conversation_messages str_of 1700000005009 1 20 down_db) =
       Inl (HTTPException HTTP_500
              (''Failed to get messages: '' @ str_of (NoHostAvailable ''no host'')))
   \<and> fst (ctrl_get_messages_before_timestamp str_of 1700000005009 2000000 1 20 down_db) =
       Inl (HTTPException HTTP_500
              (''Failed to get messages: '' @ str_of (NoHostAvailable ''no host'')))
   \<and> fst (ctrl_get_user_conversations str_of 5 1 20 down_db) =
       Inl (HTTPException HTTP_500
              (''Failed to get conversations: '' @ str_of (NoHostAvailable ''no host'')))
   \<and> fst (ctrl_create_or_get_conversation str_of clk0 5 9 down_db) =
       Inl (HTTPException HTTP_500
              (''Failed to create conversation: '' @ str_of (NoHostAvailable ''no host'')))
   \<and> raised_during flaky_db (snd (send_message str_of 1000456 7 clk0 5 9 ''hello'' flaky_db)) =
       [OperationTimedOut ''timed out'']
   \<and> length (executed (snd (send_message str_of 1000456 7 clk0 5 9 ''hello'' flaky_db))) = 5
   \<and> fst (send_message str_of 1000456 7 clk0 5 9 ''hello'' flaky_db) =
       Inl (HTTPException HTTP_500
              (''Failed to send message: '' @ str_of (OperationTimedOut ''timed out'')))
   \<and> raised_during lossy_db (snd (ctrl_create_or_get_conversation str_of clk0 5 9 lossy_db)) =
       [OperationTimedOut ''timed out'']
   \<and> length (executed (snd (ctrl_create_or_get_conversation str_of clk0 5 9 lossy_db))) = 3
   \<and> fst (ctrl_create_or_get_conversation str_of clk0 5 9 lossy_db) =
       Inl (HTTPException HTTP_500
              (''Failed to create conversation: '' @ str_of (OperationTimedOut ''timed out'')))"
  (is "\<forall>str_of. ?P str_of")
proof
  fix str_of :: "exn \<Rightarrow> string"
  note D = storage_errors_become_generic_failure
    [of str_of 1000456 7 clk0 5 9 "''hello''" down_db _ 1700000005009 1 20 _ 2000000 _ 5 _ _
        "NoHostAvailable ''no host''" "[]"]
  note F = storage_errors_become_generic_failure
    [of str_of 1000456 7 clk0 5 9 "''hello''" flaky_db]
  note L = storage_errors_become_generic_failure
    [of str_of _ _ clk0 5 9 _ lossy_db]
  note c2 = conjunct2
  from D [THEN c2, THEN c2, THEN c2, THEN c2, THEN c2, THEN c2, THEN c2, THEN c2, THEN c2,
          THEN c2, THEN mp, OF down_db_faults]
  have d: "fst (send_message str_of 1000456 7 clk0 5 9 ''hello'' down_db) =
          Inl (HTTPException HTTP_500
                 (''Failed to send message: '' @ str_of (NoHostAvailable ''no host'')))
      \<and> fst (ctrl_get_conversation_messages str_of 1700000005009 1 20 down_db) =
          Inl (HTTPException HTTP_500
                 (''Failed to get messages: '' @ str_of (NoHostAvailable ''no host'')))
      \<and> fst (ctrl_get_messages_before_timestamp str_of 1700000005009 2000000 1 20 down_db) =
          Inl (HTTPException HTTP_500
                 (''Failed to get messages: '' @ str_of (NoHostAvailable ''no host'')))
      \<and> fst (ctrl_get_user_conversations str_of 5 1 20 down_db) =
          Inl (HTTPException HTTP_500
                 (''Failed to get conversations: '' @ str_of (NoHostAvailable ''no host'')))
      \<and> fst (ctrl_create_or_get_conversation str_of clk0 5 9 down_db) =
          Inl (HTTPException HTTP_500
                 (''Failed to create conversation: '' @ str_of (NoHostAvailable ''no host'')))" .
  have fm: "OperationTimedOut ''timed out'' \<in> set (raised_during flaky_db
              (snd (send_message str_of 1000456 7 clk0 5 9 ''hello'' flaky_db)))"
    by (simp add: flaky_send_log)
  from F [THEN c2, THEN c2, THEN c2, THEN c2, THEN c2, THEN conjunct1, THEN bspec, OF fm]
  have f: "fst (send_message str_of 1000456 7 clk0 5 9 ''hello'' flaky_db) =
       Inl (HTTPException HTTP_500
              (''Failed to send message: '' @ str_of (OperationTimedOut ''timed out'')))" .
  have lm: "OperationTimedOut ''timed out'' \<in> set (raised_during lossy_db
              (snd (ctrl_create_or_get_conversation str_of clk0 5 9 lossy_db)))"
    by (simp add: lossy_resolve_log)
  from L [THEN c2, THEN c2, THEN c2, THEN c2, THEN c2, THEN c2, THEN c2, THEN c2, THEN c2,
          THEN conjunct1, THEN bspec, OF lm]
  have l: "fst (ctrl_create_or_get_conversation str_of clk0 5 9 lossy_db) =
       Inl (HTTPException HTTP_500
              (''Failed to create conversation: '' @ str_of (OperationTimedOut ''timed out'')))" .
  have logs:
    "raised_during flaky_db (snd (send_message str_of 1000456 7 clk0 5 9 ''hello'' flaky_db)) =
       [OperationTimedOut ''timed out'']"
    "length (executed (snd (send_message str_of 1000456 7 clk0 5 9 ''hello'' flaky_db))) = 5"
    "raised_during lossy_db (snd (ctrl_create_or_get_conversation str_of clk0 5 9 lossy_db)) =
       [OperationTimedOut ''timed out'']"
    "length (executed (snd (ctrl_create_or_get_conversation str_of clk0 5 9 lossy_db))) = 3"
    by (simp_all add: flaky_send_log lossy_resolve_log)
  show "?P str_of"
    by (intro conjI down_db_faults d [THEN conjunct1] d [THEN c2, THEN conjunct1]
          d [THEN c2, THEN c2, THEN conjunct1] d [THEN c2, THEN c2, THEN c2, THEN conjunct1]
          d [THEN c2, THEN c2, THEN c2, THEN c2] f l logs)
qed

section \<open>Re-reading a conversation\<close>

lemma get_conversation_log:
  assumes "get_conversation cid s = (r, s')"
  shows "executed s' = executed s @ [SELECT_conversation_metadata] \<and> tables s' = tables s"
  using assms
  by (auto simp: get_conversation_def seq_def execute_def select_metadata_def ret_def raise_def
        Let_def split: list.splits option.splits sum.splits prod.splits)

lemma half_created_state:
  "user_conversations_lookup (tables half_created) (5, 9) = Some 1700000005009
   \<and> conversation_metadata (tables half_created) 1700000005009 = None
   \<and> faults half_created = []
   \<and> executed half_created =
       [SELECT_user_conversations_lookup, INSERT_user_conversations_lookup,
        INSERT_conversation_metadata]"
  by (simp add: half_created_def lossy_db_def run_defs)

lemma half_created_resolved:
  "create_or_get_conversation clk1 5 9 half_created =
     (Inr 1700000005009,
      half_created\<lparr>faults := tl (faults half_created),
                   executed := executed half_created @ [SELECT_user_conversations_lookup]\<rparr>)"
  by (rule resolve_finds_lookup) (simp_all add: half_created_state next_ok_def)

lemma half_created_reread:
  "fst (get_conversation 1700000005009
     (half_created\<lparr>faults := tl (faults half_created),
                   executed := executed half_created @ [SELECT_user_conversations_lookup]\<rparr>))
     = Inr None"
  by (simp add: get_conversation_def seq_def execute_def select_metadata_def ret_def
        half_created_state)

text \<open>
  C8, as stated, fails: after a creation whose metadata \<open>INSERT\<close> timed out, the next
  resolution of the pair succeeds (the lookup row is there), the re-read finds no metadata
  row, and the operation fails at once: the metadata \<open>SELECT\<close> was submitted a single
  time, with no retry.
\<close>

theorem reread_not_found_fails_at_once:
  "\<forall>str_of.
     fst (create_or_get_conversation clk1 5 9 half_created) = Inr 1700000005009 \<and>
     fst (ctrl_create_or_get_conversation str_of clk1 5 9 half_created) =
       Inl (HTTPException HTTP_500
              (''Failed to create conversation: '' @
               str_of (HTTPException HTTP_404
                         ''Failed to retrieve conversation after creation'')))
     \<and> executed (snd (ctrl_create_or_get_conversation str_of clk1 5 9 half_created)) =
         [SELECT_user_conversations_lookup, INSERT_user_conversations_lookup,
          INSERT_conversation_metadata,
          SELECT_user_conversations_lookup, SELECT_conversation_metadata]"
  by (simp add: ctrl_create_or_get_conversation_def try_except_def seq_def raise_def
        half_created_resolved get_conversation_def execute_def select_metadata_def ret_def
        half_created_state)

text \<open>
  C8, amended. When resolution returns an id and the re-read of the conversation returns
  not-found, the operation does not retry: the re-read has submitted one metadata
  \<open>SELECT\<close> and changed no table, and the operation fails with the generic HTTP 500 whose
  detail embeds the not-found error (HTTP 404, "Failed to retrieve conversation after
  creation") it raised.
\<close>

theorem reread_not_found_is_not_retried:
  assumes "create_or_get_conversation clk a b s = (Inr cid, s1)"
    and "get_conversation cid s1 = (Inr None, s2)"
  shows "ctrl_create_or_get_conversation str_of clk a b s =
           (Inl (HTTPException HTTP_500
                   (''Failed to create conversation: '' @
                    str_of (HTTPException HTTP_404
                              ''Failed to retrieve conversation after creation''))), s2)
       \<and> executed s2 = executed s1 @ [SELECT_conversation_metadata]
       \<and> tables s2 = tables s1"
  using assms get_conversation_log [OF assms(2)]
  by (simp add: ctrl_create_or_get_conversation_def try_except_def seq_def raise_def)

theorem reread_not_found_is_not_retried_witness:
  "\<forall>str_of.
     fst (create_or_get_conversation clk1 5 9 half_created) = Inr 1700000005009 \<and>
     fst (get_conversation 1700000005009
            (snd (create_or_get_conversation clk1 5 9 half_created))) = Inr None \<and>
     fst (ctrl_create_or_get_conversation str_of clk1 5 9 half_created) =
       Inl (HTTPException HTTP_500
              (''Failed to create conversation: '' @
               str_of (HTTPException HTTP_404
                         ''Failed to retrieve conversation after creation'')))"
  (is "\<forall>str_of. ?P str_of")
proof
  fix str_of :: "exn \<Rightarrow> string"
  have r: "fst (get_conversation 1700000005009
                 (snd (create_or_get_conversation clk1 5 9 half_created))) = Inr None"
    using half_created_reread by (simp add: half_created_resolved)
  have c1: "fst (create_or_get_conversation clk1 5 9 half_created) = Inr 1700000005009"
    by (simp add: half_created_resolved)
  note c = pair_collapse [OF c1]
  from reread_not_found_is_not_retried [OF c pair_collapse [OF r], of str_of]
  have "fst (ctrl_create_or_get_conversation str_of clk1 5 9 half_created) =
     Inl (HTTPException HTTP_500
            (''Failed to create conversation: '' @
             str_of (HTTPException HTTP_404
                       ''Failed to retrieve conversation after creation'')))"
    by simp
  then show "?P str_of"
    using r c1 by simp
qed

section \<open>Conversations without messages\<close>

lemma keeps_ret: "keeps P (ret v)"
  by (simp add: keeps_def ret_def)

lemma keeps_seq:
  assumes m: "keeps P m" and f: "\<And>x. keeps P (f x)"
  shows "keeps P (seq m f)"
  unfolding keeps_def
proof (intro allI impI)
  fix s r s'
  assume p: "P (tables s)" and run: "seq m f s = (r, s')"
  obtain r1 s1 where ms: "m s = (r1, s1)" by (cases "m s")
  with m p have p1: "P (tables s1)" unfolding keeps_def by blast
  show "P (tables s')"
  proof (cases r1)
    case (Inl e)
    with run ms have "s' = s1" by (simp add: seq_def)
    with p1 show ?thesis by simp
  next
    case (Inr x)
    with run ms have "f x s1 = (r, s')" by (simp add: seq_def)
    with f [of x] p1 show ?thesis unfolding keeps_def by blast
  qed
qed

lemma keeps_execute:
  assumes run: "\<And>t v t'. P t \<Longrightarrow> run t = Inr (v, t') \<Longrightarrow> P t'"
  shows "keeps P (execute q run)"
  unfolding keeps_def
proof (intro allI impI)
  fix s r s'
  assume p: "P (tables s)" and e: "execute q run s = (r, s')"
  from e have "tables s' = tables s \<or> (\<exists>v. run (tables s) = Inr (v, tables s'))"
    by (auto simp: execute_def Let_def split: list.splits option.splits sum.splits)
  with p run show "P (tables s')" by auto
qed

lemma wf_insert_lookup:
  "metadata_wf t \<Longrightarrow> insert_lookup u1 u2 c t = Inr (v, t') \<Longrightarrow> metadata_wf t'"
  by (auto simp: metadata_wf_def insert_lookup_def)

lemma wf_select_lookup:
  "metadata_wf t \<Longrightarrow> select_lookup u1 u2 t = Inr (v, t') \<Longrightarrow> metadata_wf t'"
  by (auto simp: select_lookup_def)

lemma wf_insert_message:
  "metadata_wf t \<Longrightarrow> insert_message c ts mid a b text t = Inr (v, t') \<Longrightarrow> metadata_wf t'"
  by (auto simp: metadata_wf_def insert_message_def)

lemma wf_insert_summary:
  "metadata_wf t \<Longrightarrow> insert_summary u ts c other text t = Inr (v, t') \<Longrightarrow> metadata_wf t'"
  by (auto simp: metadata_wf_def insert_summary_def)

lemma wf_upd:
  assumes "metadata_wf t"
    and "md_last_message_at new = None \<longrightarrow>
           md_created_at new \<noteq> None \<and> md_user1_id new \<noteq> None \<and> md_user2_id new \<noteq> None"
  shows "metadata_wf (t\<lparr>conversation_metadata := (conversation_metadata t)(c \<mapsto> new)\<rparr>)"
  unfolding metadata_wf_def
proof (intro allI impI)
  fix cid row
  assume r: "conversation_metadata
               (t\<lparr>conversation_metadata := (conversation_metadata t)(c \<mapsto> new)\<rparr>) cid = Some row"
    and n: "md_last_message_at row = None"
  show "md_created_at row \<noteq> None \<and> md_user1_id row \<noteq> None \<and> md_user2_id row \<noteq> None"
  proof (cases "cid = c")
    case True
    with r have "row = new" by simp
    with assms(2) n show ?thesis by simp
  next
    case False
    with r have "conversation_metadata t cid = Some row" by simp
    with assms(1) n show ?thesis unfolding metadata_wf_def by blast
  qed
qed

lemma wf_insert_metadata:
  assumes "metadata_wf t" and "insert_metadata c u1 u2 ts t = Inr (v, t')"
  shows "metadata_wf t'"
proof -
  from assms(2) have t': "t' = t\<lparr>conversation_metadata := (conversation_metadata t)
      (c \<mapsto> (case conversation_metadata t c of
                None \<Rightarrow> \<lparr>md_user1_id = None, md_user2_id = None, md_created_at = None,
                         md_last_message_at = None, md_last_message_content = None\<rparr>
              | Some r \<Rightarrow> r)
             \<lparr>md_user1_id := Some u1, md_user2_id := Some u2,
              md_created_at := Some (to_millis ts), md_last_message_at := None\<rparr>)\<rparr>"
    by (auto simp: insert_metadata_def Let_def)
  show ?thesis unfolding t' by (rule wf_upd [OF assms(1)]) simp
qed

lemma wf_update_metadata:
  assumes "metadata_wf t" and "update_metadata ts text c t = Inr (v, t')"
  shows "metadata_wf t'"
proof -
  from assms(2) have t': "t' = t\<lparr>conversation_metadata := (conversation_metadata t)
      (c \<mapsto> (case conversation_metadata t c of
                None \<Rightarrow> \<lparr>md_user1_id = None, md_user2_id = None, md_created_at = None,
                         md_last_message_at = None, md_last_message_content = None\<rparr>
              | Some r \<Rightarrow> r)
             \<lparr>md_last_message_at := Some (to_millis ts), md_last_message_content := Some text\<rparr>)\<rparr>"
    by (auto simp: update_metadata_def Let_def)
  show ?thesis unfolding t' by (rule wf_upd [OF assms(1)]) simp
qed

lemma resolve_keeps_wf: "keeps metadata_wf (create_or_get_conversation clk a b)"
proof -
  have body: "keeps metadata_wf
     (seq (execute SELECT_user_conversations_lookup (select_lookup u1 u2))
           (\<lambda>rows. case rows of
                [] \<Rightarrow>
                  seq (execute INSERT_user_conversations_lookup
                         (insert_lookup u1 u2 (time_ms clk + u1 * 1000 + u2 mod 1000)))
                    (\<lambda>_. seq (execute INSERT_conversation_metadata
                                (insert_metadata (time_ms clk + u1 * 1000 + u2 mod 1000)
                                   u1 u2 (utcnow clk)))
                           (\<lambda>_. ret (time_ms clk + u1 * 1000 + u2 mod 1000)))
              | c # _ \<Rightarrow> ret c))" for u1 u2
  proof (rule keeps_seq)
    show "keeps metadata_wf (execute SELECT_user_conversations_lookup (select_lookup u1 u2))"
      by (rule keeps_execute) (rule wf_select_lookup)
  next
    fix rows :: "int list"
    show "keeps metadata_wf (case rows of
                [] \<Rightarrow>
                  seq (execute INSERT_user_conversations_lookup
                         (insert_lookup u1 u2 (time_ms clk + u1 * 1000 + u2 mod 1000)))
                    (\<lambda>_. seq (execute INSERT_conversation_metadata
                                (insert_metadata (time_ms clk + u1 * 1000 + u2 mod 1000)
                                   u1 u2 (utcnow clk)))
                           (\<lambda>_. ret (time_ms clk + u1 * 1000 + u2 mod 1000)))
              | c # _ \<Rightarrow> ret c)"
    proof (cases rows)
      case Nil
      show ?thesis
        unfolding Nil list.case
        by (intro keeps_seq keeps_ret keeps_execute; erule wf_insert_lookup wf_insert_metadata;
            assumption)
    next
      case (Cons c cs)
      show ?thesis unfolding Cons list.case by (rule keeps_ret)
    qed
  qed
  show ?thesis
    by (simp add: create_or_get_conversation_def Let_def body)
qed

lemma create_message_keeps_wf:
  "keeps metadata_wf (create_message ts mid clk a b text copt)"
  unfolding create_message_def
proof (rule keeps_seq)
  show "keeps metadata_wf
     (case copt of None \<Rightarrow> create_or_get_conversation clk a b | Some c \<Rightarrow> ret c)"
    by (cases copt) (simp_all add: resolve_keeps_wf keeps_ret)
next
  fix cid
  show "keeps metadata_wf
          (seq (execute INSERT_messages_by_conversation
                 (insert_message cid ts mid a b text))
            (\<lambda>_. seq (execute INSERT_conversations_by_user
                        (insert_summary a ts cid b text))
               (\<lambda>_. seq (execute INSERT_conversations_by_user
                           (insert_summary b ts cid a text))
                  (\<lambda>_. seq (execute UPDATE_conversation_metadata
                              (update_metadata ts text cid))
                     (\<lambda>_. ret \<lparr>d_message_id = Str mid,
                                d_conversation_id = cid,
                                d_sender_id = a,
                                d_receiver_id = b,
                                d_content = text,
                                d_timestamp = Isoformat ts\<rparr>)))))"
    by (intro keeps_seq keeps_ret keeps_execute;
        erule wf_insert_message wf_insert_summary wf_update_metadata; assumption)
qed

lemma wf_empty: "metadata_wf empty_store"
  by (simp add: metadata_wf_def empty_store_def)

text \<open>
  C10. For a conversation whose metadata row has a null \<open>last_message_at\<close> (no message
  sent yet), in any keyspace whose metadata rows were written by the resolver and the send
  (which both keep \<open>metadata_wf\<close>), \<open>getConversation\<close> does not fail and does not
  return a null \<open>last_updated\<close>: the row has a creation time, and the record returned, by
  the model and by the controller, carries that creation time, as the column holds it, both
  as \<open>created_at\<close> and as \<open>last_updated\<close>.
\<close>

theorem conversation_without_messages:
  assumes "metadata_wf (tables s)"
    and "conversation_metadata (tables s) cid = Some row"
    and "md_last_message_at row = None"
    and "next_ok s"
  shows "md_created_at row \<noteq> None
       \<and> fst (get_conversation cid s) =
           Inr (Some \<lparr>c_conversation_id = cid,
                      c_participant_ids = [md_user1_id row, md_user2_id row],
                      c_created_at = Isoformat (from_millis (the (md_created_at row))),
                      c_last_updated = Isoformat (from_millis (the (md_created_at row)))\<rparr>)
       \<and> fst (ctrl_get_conversation str_of cid s) =
           Inr \<lparr>cr_conversation_id = cid,
                cr_participant_ids = [the (md_user1_id row), the (md_user2_id row)],
                cr_created_at = Isoformat (from_millis (the (md_created_at row))),
                cr_last_updated = Isoformat (from_millis (the (md_created_at row)))\<rparr>"
proof -
  from assms(1-3) obtain created u1 u2 where
    c: "md_created_at row = Some created" and u1: "md_user1_id row = Some u1"
    and u2: "md_user2_id row = Some u2"
    unfolding metadata_wf_def by blast
  have g: "get_conversation cid s =
      (Inr (Some \<lparr>c_conversation_id = cid,
                  c_participant_ids = [md_user1_id row, md_user2_id row],
                  c_created_at = Isoformat (from_millis created),
                  c_last_updated = Isoformat (from_millis created)\<rparr>),
       s\<lparr>faults := tl (faults s), executed := executed s @ [SELECT_conversation_metadata]\<rparr>)"
    using assms(2-4) c
    by (simp add: get_conversation_def seq_def execute_ok select_metadata_def ret_def)
  have "fst (ctrl_get_conversation str_of cid s) =
           Inr \<lparr>cr_conversation_id = cid,
                cr_participant_ids = [u1, u2],
                cr_created_at = Isoformat (from_millis created),
                cr_last_updated = Isoformat (from_millis created)\<rparr>"
    by (simp add: ctrl_get_conversation_def try_except_def seq_def g to_ConversationResponse_def
          ret_def u1 u2)
  with g c u1 u2 show ?thesis by simp
qed

lemma just_created_wf: "metadata_wf (tables just_created)"
proof -
  have "metadata_wf (tables fresh_db)"
    by (simp add: fresh_db_def wf_empty)
  with resolve_keeps_wf [of clk0 5 9] show ?thesis
    unfolding keeps_def just_created_def
    by (metis prod.collapse)
qed

lemma just_created_row:
  "conversation_metadata (tables just_created) 1700000005009 =
     Some \<lparr>md_user1_id = Some 5, md_user2_id = Some 9, md_created_at = Some 1000,
           md_last_message_at = None, md_last_message_content = None\<rparr>
   \<and> faults just_created = []"
  by (simp add: just_created_def run_defs)

theorem conversation_without_messages_witness:
  "\<forall>str_of.
     fst (get_conversation 1700000005009 just_created) =
       Inr (Some \<lparr>c_conversation_id = 1700000005009,
                  c_participant_ids = [Some 5, Some 9],
                  c_created_at = Isoformat 1000000,
                  c_last_updated = Isoformat 1000000\<rparr>)
   \<and> fst (ctrl_get_conversation str_of 1700000005009 just_created) =
       Inr \<lparr>cr_conversation_id = 1700000005009,
            cr_participant_ids = [5, 9],
            cr_created_at = Isoformat 1000000,
            cr_last_updated = Isoformat 1000000\<rparr>"
  (is "\<forall>str_of. ?P str_of")
proof
  fix str_of :: "exn \<Rightarrow> string"
  have ok: "next_ok just_created"
    by (simp add: next_ok_def just_created_row)
  have nul: "md_last_message_at \<lparr>md_user1_id = Some 5, md_user2_id = Some 9,
      md_created_at = Some 1000, md_last_message_at = None,
      md_last_message_content = None\<rparr> = None"
    by simp
  from conversation_without_messages
         [OF just_created_wf just_created_row [THEN conjunct1] nul ok, of str_of]
  show "?P str_of" by (simp add: from_millis_def)
qed


end
